theory Spec2Isabelle
  imports Main "HOL-Library.Word"
begin

unbundle bit_operations_syntax

section \<open>Basic types\<close>

text \<open>
  Go's \<open>byte\<close>/\<open>uint8\<close>, \<open>uint16\<close>, \<open>uint32\<close> and \<open>uint64\<close> are words of that width.
  The signed types \<open>int8\<close> ... \<open>int64\<close> are words of the same width read in two's
  complement (\<open>sint\<close>); a conversion between signed types is \<open>scast\<close>, a conversion
  between unsigned types (or a truncation) is \<open>ucast\<close>.  A byte slice is its elements
  (a list of bytes); the slices that the fields of a row keep from one record to the
  next carry the capacity of their backing array as well, since a read into such a slice
  writes over the array it has.  The slices that the encoder appends to and the ones
  handed to the caller are values.
\<close>

type_synonym byte = "8 word"
type_synonym bytes = "byte list"
type_synonym uint16 = "16 word"
type_synonym uint32 = "32 word"
type_synonym uint64 = "64 word"
type_synonym int64 = "64 word"

text \<open>
  \<open>drv.BatchError\<close>: the structured error of a batch.  Go \<open>string\<close>s are HOL
  \<open>string\<close>s (sequences of bytes).
\<close>

record BatchError =
  SrcFile :: string
  SrcLineNo :: int64
  SrcFuncname :: string
  SrcBacktrace :: string
  Category :: string
  Message :: string
  Severity :: string
  State :: int64
  Text :: string
  LineNo :: int64
  LinePos :: int64

text \<open>
  The errors the driver can produce.  Messages built with \<open>fmt.Errorf\<close> are kept as a
  constructor carrying the formatted arguments.
\<close>

datatype error =
    EOF                          \<comment> \<open>\<open>io.EOF\<close>: the transport had no byte left\<close>
  | ErrUnexpectedEOF             \<comment> \<open>\<open>io.ErrUnexpectedEOF\<close>: the transport ended inside a value\<close>
  | ErrBadPrefix string byte     \<comment> \<open>\<open>error_bad_prefix(funcname, prefix)\<close>\<close>
  | ErrOverflow string uint64    \<comment> \<open>\<open>msgp: ReadXxx overflow, read %d\<close>\<close>
  | ErrUnknownDatatype           \<comment> \<open>\<open>Unknown datatype received\<close>\<close>
  | ErrRecordcountMismatch int64 int64  \<comment> \<open>\<open>Batch: recordcount mismatch (RSQL bug).\<close>\<close>
  | ErrBatch BatchError           \<comment> \<open>a \<open>*BatchError\<close>\<close>
  | ErrScanNotAvailable          \<comment> \<open>\<open>scan: record not available.\<close>\<close>
  | ErrScanCount nat             \<comment> \<open>\<open>scan: dest arguments count must be the same ...\<close>\<close>
  | ErrScanOverflow nat string   \<comment> \<open>\<open>scan: column %d to <type>: overflow.\<close>\<close>
  | ErrScanUnsupported           \<comment> \<open>\<open>scan: destination type not supported.\<close>\<close>
  | ErrNetClosed                 \<comment> \<open>\<open>use of closed network connection\<close>\<close>

text \<open>
  A Go call either returns a value, returns an error, or panics (a failed \<open>assert\<close>, an
  explicit \<open>panic\<close>, or a run-time panic such as closing a closed channel).
\<close>

datatype 'a res = Ok 'a | Err error | Panic string

section \<open>Package msgp: constants\<close>

named_theorems msgp_const

definition M_NIL :: byte where [msgp_const]: "M_NIL = 0xc0"
definition M_FALSE :: byte where [msgp_const]: "M_FALSE = 0xc2"
definition M_TRUE :: byte where [msgp_const]: "M_TRUE = 0xc3"
definition M_UINT8 :: byte where [msgp_const]: "M_UINT8 = 0xcc"
definition M_UINT16 :: byte where [msgp_const]: "M_UINT16 = 0xcd"
definition M_UINT32 :: byte where [msgp_const]: "M_UINT32 = 0xce"
definition M_UINT64 :: byte where [msgp_const]: "M_UINT64 = 0xcf"
definition M_INT8 :: byte where [msgp_const]: "M_INT8 = 0xd0"
definition M_INT16 :: byte where [msgp_const]: "M_INT16 = 0xd1"
definition M_INT32 :: byte where [msgp_const]: "M_INT32 = 0xd2"
definition M_INT64 :: byte where [msgp_const]: "M_INT64 = 0xd3"
definition M_FLOAT32 :: byte where [msgp_const]: "M_FLOAT32 = 0xca"
definition M_FLOAT64 :: byte where [msgp_const]: "M_FLOAT64 = 0xcb"
definition M_FIXSTR_BASE :: byte where [msgp_const]: "M_FIXSTR_BASE = 0xa0"
definition M_STR8 :: byte where [msgp_const]: "M_STR8 = 0xd9"
definition M_STR16 :: byte where [msgp_const]: "M_STR16 = 0xda"
definition M_STR32 :: byte where [msgp_const]: "M_STR32 = 0xdb"
definition M_BIN8 :: byte where [msgp_const]: "M_BIN8 = 0xc4"
definition M_BIN16 :: byte where [msgp_const]: "M_BIN16 = 0xc5"
definition M_BIN32 :: byte where [msgp_const]: "M_BIN32 = 0xc6"
definition M_FIXARRAY_BASE :: byte where [msgp_const]: "M_FIXARRAY_BASE = 0x90"
definition M_ARRAY16 :: byte where [msgp_const]: "M_ARRAY16 = 0xdc"
definition M_ARRAY32 :: byte where [msgp_const]: "M_ARRAY32 = 0xdd"
definition M_FIXMAP_BASE :: byte where [msgp_const]: "M_FIXMAP_BASE = 0x80"
definition M_MAP16 :: byte where [msgp_const]: "M_MAP16 = 0xde"
definition M_MAP32 :: byte where [msgp_const]: "M_MAP32 = 0xdf"
definition M_NEGATIVE_FIXINT_BASE :: byte where [msgp_const]: "M_NEGATIVE_FIXINT_BASE = 0xe0"
definition PREFIX_FIXSTR_MASK :: byte where [msgp_const]: "PREFIX_FIXSTR_MASK = 0xe0"
definition PREFIX_FIXARRAY_MASK :: byte where [msgp_const]: "PREFIX_FIXARRAY_MASK = 0xf0"
definition PREFIX_FIXMAP_MASK :: byte where [msgp_const]: "PREFIX_FIXMAP_MASK = 0xf0"

section \<open>Package msgp: the encoder\<close>

text \<open>
  \<open>uint8(val>>k)\<close> on a \<open>uint64\<close> is a logical shift followed by a truncation; on an
  \<open>int64\<close> the shift is arithmetic.
\<close>

definition AppendUint64 :: "bytes \<Rightarrow> uint64 \<Rightarrow> bytes" where
  "AppendUint64 dest val =
     (if val \<le> 127 then dest @ [ucast val]
      else if val \<le> 0xFF then dest @ [M_UINT8, ucast val]
      else if val \<le> 0xFFFF then dest @ [M_UINT16, ucast (drop_bit 8 val), ucast val]
      else if val \<le> 0xFFFFFFFF then
        dest @ [M_UINT32, ucast (drop_bit 24 val), ucast (drop_bit 16 val),
                ucast (drop_bit 8 val), ucast val]
      else
        dest @ [M_UINT64, ucast (drop_bit 56 val), ucast (drop_bit 48 val),
                ucast (drop_bit 40 val), ucast (drop_bit 32 val), ucast (drop_bit 24 val),
                ucast (drop_bit 16 val), ucast (drop_bit 8 val), ucast val])"

definition AppendInt64 :: "bytes \<Rightarrow> int64 \<Rightarrow> bytes" where
  "AppendInt64 dest val =
     (if 0 \<le> sint val then
        (if sint val \<le> 127 then dest @ [ucast val]
         else if sint val \<le> 32767 then
           dest @ [M_INT16, ucast (signed_drop_bit 8 val), ucast val]
         else if sint val \<le> 2147483647 then
           dest @ [M_INT32, ucast (signed_drop_bit 24 val), ucast (signed_drop_bit 16 val),
                   ucast (signed_drop_bit 8 val), ucast val]
         else
           dest @ [M_INT64, ucast (signed_drop_bit 56 val), ucast (signed_drop_bit 48 val),
                   ucast (signed_drop_bit 40 val), ucast (signed_drop_bit 32 val),
                   ucast (signed_drop_bit 24 val), ucast (signed_drop_bit 16 val),
                   ucast (signed_drop_bit 8 val), ucast val])
      else if - 32 \<le> sint val then dest @ [ucast val]
      else if - 128 \<le> sint val then dest @ [M_INT8, ucast val]
      else if - 32768 \<le> sint val then
        dest @ [M_INT16, ucast (signed_drop_bit 8 val), ucast val]
      else if - 2147483648 \<le> sint val then
        dest @ [M_INT32, ucast (signed_drop_bit 24 val), ucast (signed_drop_bit 16 val),
                ucast (signed_drop_bit 8 val), ucast val]
      else
        dest @ [M_INT64, ucast (signed_drop_bit 56 val), ucast (signed_drop_bit 48 val),
                ucast (signed_drop_bit 40 val), ucast (signed_drop_bit 32 val),
                ucast (signed_drop_bit 24 val), ucast (signed_drop_bit 16 val),
                ucast (signed_drop_bit 8 val), ucast val])"

definition AppendStringHeader :: "bytes \<Rightarrow> uint32 \<Rightarrow> bytes" where
  "AppendStringHeader dest sz =
     (if sz \<le> 31 then dest @ [M_FIXSTR_BASE OR ucast sz]
      else if sz \<le> 0xFF then dest @ [M_STR8] @ [ucast sz]
      else if sz \<le> 0xFFFF then dest @ [M_STR16] @ [ucast (drop_bit 8 sz), ucast sz]
      else dest @ [M_STR32] @ [ucast (drop_bit 24 sz), ucast (drop_bit 16 sz),
                               ucast (drop_bit 8 sz), ucast sz])"

text \<open>
  \<open>AppendString\<close>: a Go string is a byte sequence.  A length above \<open>math.MaxUint32\<close>
  panics.
\<close>

definition AppendString :: "bytes \<Rightarrow> bytes \<Rightarrow> bytes res" where
  "AppendString dest s =
     (if length s > 4294967295 then Panic ''msgp: string too long''
      else Ok (AppendStringHeader dest (of_nat (length s)) @ s))"

definition AppendMapHeader :: "bytes \<Rightarrow> uint32 \<Rightarrow> bytes" where
  "AppendMapHeader dest sz =
     (if sz \<le> 15 then dest @ [M_FIXMAP_BASE OR ucast sz]
      else if sz \<le> 0xFFFF then dest @ [M_MAP16] @ [ucast (drop_bit 8 sz), ucast sz]
      else dest @ [M_MAP32] @ [ucast (drop_bit 24 sz), ucast (drop_bit 16 sz),
                               ucast (drop_bit 8 sz), ucast sz])"

section \<open>Package msgp: the decoder\<close>

text \<open>
  A \<open>Reader\<close> wraps a buffered reader over the transport.  It is modelled by the bytes
  the transport will still deliver; when they run out the transport reports end of file.
  The scratch buffer only saves allocations: every read overwrites it before use, so it
  is left out.  Every reading function returns its outcome together with the reader
  after the call, since bytes consumed before an error are gone.
\<close>

type_synonym Reader = "byte list"

type_synonym 'a rd = "Reader \<Rightarrow> 'a res \<times> Reader"

text \<open>Sequencing: the Go idiom \<open>if x, err = f(); err != nil { return ..., err }\<close>.\<close>

definition rbind :: "'a rd \<Rightarrow> ('a \<Rightarrow> 'b rd) \<Rightarrow> 'b rd" where
  "rbind m f br =
     (case m br of
        (Ok x, br') \<Rightarrow> f x br'
      | (Err e, br') \<Rightarrow> (Err e, br')
      | (Panic p, br') \<Rightarrow> (Panic p, br'))"

definition rreturn :: "'a \<Rightarrow> 'a rd" where
  "rreturn x br = (Ok x, br)"

definition rfail :: "error \<Rightarrow> 'a rd" where
  "rfail e br = (Err e, br)"

datatype Type =
    InvalidType | BinType | StrType | NilType | BoolType | UintType | IntType
  | Float32Type | Float64Type | ArrayType | MapType

text \<open>\<open>bufio.Reader.Peek(1)\<close>: the next byte, which stays unread.\<close>

definition peek_byte :: "byte rd" where
  "peek_byte br = (case br of [] \<Rightarrow> (Err EOF, br) | b # _ \<Rightarrow> (Ok b, br))"

definition NextType :: "Type rd" where
  "NextType =
     rbind peek_byte (\<lambda>prefix.
       if prefix \<le> 127 then rreturn IntType
       else if prefix \<ge> M_NEGATIVE_FIXINT_BASE then rreturn IntType
       else if prefix AND PREFIX_FIXSTR_MASK = M_FIXSTR_BASE then rreturn StrType
       else if prefix AND PREFIX_FIXARRAY_MASK = M_FIXARRAY_BASE then rreturn ArrayType
       else if prefix AND PREFIX_FIXMAP_MASK = M_FIXMAP_BASE then rreturn MapType
       else if prefix = M_NIL then rreturn NilType
       else if prefix = M_FALSE \<or> prefix = M_TRUE then rreturn BoolType
       else if prefix = M_BIN8 \<or> prefix = M_BIN16 \<or> prefix = M_BIN32 then rreturn BinType
       else if prefix = M_FLOAT32 then rreturn Float32Type
       else if prefix = M_FLOAT64 then rreturn Float64Type
       else if prefix = M_UINT8 \<or> prefix = M_UINT16 \<or> prefix = M_UINT32 \<or> prefix = M_UINT64
         then rreturn UintType
       else if prefix = M_INT8 \<or> prefix = M_INT16 \<or> prefix = M_INT32 \<or> prefix = M_INT64
         then rreturn IntType
       else if prefix = M_STR8 \<or> prefix = M_STR16 \<or> prefix = M_STR32 then rreturn StrType
       else if prefix = M_ARRAY16 \<or> prefix = M_ARRAY32 then rreturn ArrayType
       else if prefix = M_MAP16 \<or> prefix = M_MAP32 then rreturn MapType
       else rreturn InvalidType)"

text \<open>
  \<open>ReadNBytes\<close> is \<open>io.ReadFull\<close> into a buffer of length \<open>n\<close>: all \<open>n\<close> bytes, or
  \<open>io.EOF\<close> when not a single byte could be read, or \<open>io.ErrUnexpectedEOF\<close> when the
  transport ended after some of them.  Reading zero bytes always succeeds.
\<close>

definition ReadNBytes :: "nat \<Rightarrow> bytes rd" where
  "ReadNBytes n br =
     (if n \<le> length br then (Ok (take n br), drop n br)
      else if br = [] then (Err EOF, [])
      else (Err ErrUnexpectedEOF, []))"

definition read_N :: "nat \<Rightarrow> bytes rd" where
  "read_N n = ReadNBytes n"

definition read_prefix :: "byte rd" where
  "read_prefix = rbind (read_N 1) (\<lambda>buff. rreturn (buff ! 0))"

definition read_raw_uint8 :: "byte rd" where
  "read_raw_uint8 = rbind (read_N 1) (\<lambda>buff. rreturn (buff ! 0))"

definition read_raw_uint16 :: "uint16 rd" where
  "read_raw_uint16 =
     rbind (read_N 2) (\<lambda>buff.
       rreturn (push_bit 8 (ucast (buff ! 0)) OR ucast (buff ! 1)))"

definition read_raw_uint32 :: "uint32 rd" where
  "read_raw_uint32 =
     rbind (read_N 4) (\<lambda>buff.
       rreturn (push_bit 24 (ucast (buff ! 0)) OR push_bit 16 (ucast (buff ! 1))
                OR push_bit 8 (ucast (buff ! 2)) OR ucast (buff ! 3)))"

definition read_raw_uint64 :: "uint64 rd" where
  "read_raw_uint64 =
     rbind (read_N 8) (\<lambda>buff.
       rreturn (push_bit 56 (ucast (buff ! 0)) OR push_bit 48 (ucast (buff ! 1))
                OR push_bit 40 (ucast (buff ! 2)) OR push_bit 32 (ucast (buff ! 3))
                OR push_bit 24 (ucast (buff ! 4)) OR push_bit 16 (ucast (buff ! 5))
                OR push_bit 8 (ucast (buff ! 6)) OR ucast (buff ! 7)))"

text \<open>The signed raw readers reinterpret the unsigned value: the same word.\<close>

definition read_raw_int8 :: "byte rd" where
  "read_raw_int8 = read_raw_uint8"

definition read_raw_int16 :: "uint16 rd" where
  "read_raw_int16 = read_raw_uint16"

definition read_raw_int32 :: "uint32 rd" where
  "read_raw_int32 = read_raw_uint32"

definition read_raw_int64 :: "int64 rd" where
  "read_raw_int64 = read_raw_uint64"

definition first_bits_4 :: "byte \<Rightarrow> byte" where
  "first_bits_4 b = b AND 0x0f"

definition first_bits_5 :: "byte \<Rightarrow> byte" where
  "first_bits_5 b = b AND 0x1f"

definition ReadNil :: "unit rd" where
  "ReadNil =
     rbind read_prefix (\<lambda>prefix.
       if prefix = M_NIL then rreturn () else rfail (ErrBadPrefix ''read nil'' prefix))"

definition ReadBool :: "bool rd" where
  "ReadBool =
     rbind read_prefix (\<lambda>prefix.
       if prefix = M_FALSE then rreturn False
       else if prefix = M_TRUE then rreturn True
       else rfail (ErrBadPrefix ''read bool'' prefix))"

definition ReadUint64 :: "uint64 rd" where
  "ReadUint64 =
     rbind read_prefix (\<lambda>prefix.
       if prefix \<le> 127 then rreturn (ucast prefix)
       else if prefix = M_UINT8 then rbind read_raw_uint8 (\<lambda>val_8. rreturn (ucast val_8))
       else if prefix = M_UINT16 then rbind read_raw_uint16 (\<lambda>val_16. rreturn (ucast val_16))
       else if prefix = M_UINT32 then rbind read_raw_uint32 (\<lambda>val_32. rreturn (ucast val_32))
       else if prefix = M_UINT64 then rbind read_raw_uint64 (\<lambda>val. rreturn val)
       else rfail (ErrBadPrefix ''read uint'' prefix))"

definition ReadUint8 :: "byte rd" where
  "ReadUint8 =
     rbind ReadUint64 (\<lambda>in'.
       if in' > 0xFF then rfail (ErrOverflow ''ReadUint8'' in') else rreturn (ucast in'))"

definition ReadUint16 :: "uint16 rd" where
  "ReadUint16 =
     rbind ReadUint64 (\<lambda>in'.
       if in' > 0xFFFF then rfail (ErrOverflow ''ReadUint16'' in') else rreturn (ucast in'))"

definition ReadUint32 :: "uint32 rd" where
  "ReadUint32 =
     rbind ReadUint64 (\<lambda>in'.
       if in' > 0xFFFFFFFF then rfail (ErrOverflow ''ReadUint32'' in')
       else rreturn (ucast in'))"

definition ReadInt64 :: "int64 rd" where
  "ReadInt64 =
     rbind read_prefix (\<lambda>prefix.
       if prefix \<le> 127 then rreturn (ucast prefix)
       else if prefix \<ge> M_NEGATIVE_FIXINT_BASE then rreturn (scast prefix)
       else if prefix = M_INT8 then rbind read_raw_int8 (\<lambda>val_8. rreturn (scast val_8))
       else if prefix = M_INT16 then rbind read_raw_int16 (\<lambda>val_16. rreturn (scast val_16))
       else if prefix = M_INT32 then rbind read_raw_int32 (\<lambda>val_32. rreturn (scast val_32))
       else if prefix = M_INT64 then rbind read_raw_int64 (\<lambda>val. rreturn val)
       else rfail (ErrBadPrefix ''read int'' prefix))"

definition ReadInt8 :: "byte rd" where
  "ReadInt8 =
     rbind ReadInt64 (\<lambda>in'.
       if sint in' < - 128 \<or> sint in' > 127 then rfail (ErrOverflow ''ReadInt8'' in')
       else rreturn (ucast in'))"

definition ReadInt16 :: "uint16 rd" where
  "ReadInt16 =
     rbind ReadInt64 (\<lambda>in'.
       if sint in' < - 32768 \<or> sint in' > 32767 then rfail (ErrOverflow ''ReadInt16'' in')
       else rreturn (ucast in'))"

definition ReadInt32 :: "uint32 rd" where
  "ReadInt32 =
     rbind ReadInt64 (\<lambda>in'.
       if sint in' < - 2147483648 \<or> sint in' > 2147483647
         then rfail (ErrOverflow ''ReadInt32'' in')
       else rreturn (ucast in'))"

text \<open>
  A \<open>float32\<close>/\<open>float64\<close> is kept as its IEEE-754 bit pattern, which is what the
  wire carries (\<open>math.Float64frombits\<close>); no floating-point arithmetic is modelled.
\<close>

definition ReadFloat32 :: "uint32 rd" where
  "ReadFloat32 =
     rbind read_prefix (\<lambda>prefix.
       if prefix \<noteq> M_FLOAT32 then rfail (ErrBadPrefix ''read float32'' prefix)
       else rbind read_raw_uint32 (\<lambda>float_bits. rreturn float_bits))"

definition ReadFloat64 :: "uint64 rd" where
  "ReadFloat64 =
     rbind read_prefix (\<lambda>prefix.
       if prefix \<noteq> M_FLOAT64 then rfail (ErrBadPrefix ''read float64'' prefix)
       else rbind read_raw_uint64 (\<lambda>float_bits. rreturn float_bits))"

definition ReadStringHeader :: "uint32 rd" where
  "ReadStringHeader =
     rbind read_prefix (\<lambda>prefix.
       if prefix AND PREFIX_FIXSTR_MASK = M_FIXSTR_BASE then rreturn (ucast (first_bits_5 prefix))
       else if prefix = M_STR8 then rbind read_raw_uint8 (\<lambda>sz_8. rreturn (ucast sz_8))
       else if prefix = M_STR16 then rbind read_raw_uint16 (\<lambda>sz_16. rreturn (ucast sz_16))
       else if prefix = M_STR32 then rbind read_raw_uint32 (\<lambda>sz. rreturn sz)
       else rfail (ErrBadPrefix ''read string'' prefix))"

definition ReadBytesHeader :: "uint32 rd" where
  "ReadBytesHeader =
     rbind read_prefix (\<lambda>prefix.
       if prefix = M_BIN8 then rbind read_raw_uint8 (\<lambda>sz_8. rreturn (ucast sz_8))
       else if prefix = M_BIN16 then rbind read_raw_uint16 (\<lambda>sz_16. rreturn (ucast sz_16))
       else if prefix = M_BIN32 then rbind read_raw_uint32 (\<lambda>sz. rreturn sz)
       else rfail (ErrBadPrefix ''read bin'' prefix))"

definition ReadArrayHeader :: "uint32 rd" where
  "ReadArrayHeader =
     rbind read_prefix (\<lambda>prefix.
       if prefix AND PREFIX_FIXARRAY_MASK = M_FIXARRAY_BASE
         then rreturn (ucast (first_bits_4 prefix))
       else if prefix = M_ARRAY16 then rbind read_raw_uint16 (\<lambda>sz_16. rreturn (ucast sz_16))
       else if prefix = M_ARRAY32 then rbind read_raw_uint32 (\<lambda>sz. rreturn sz)
       else rfail (ErrBadPrefix ''read array'' prefix))"

definition ReadMapHeader :: "uint32 rd" where
  "ReadMapHeader =
     rbind read_prefix (\<lambda>prefix.
       if prefix AND PREFIX_FIXMAP_MASK = M_FIXMAP_BASE
         then rreturn (ucast (first_bits_4 prefix))
       else if prefix = M_MAP16 then rbind read_raw_uint16 (\<lambda>sz_16. rreturn (ucast sz_16))
       else if prefix = M_MAP32 then rbind read_raw_uint32 (\<lambda>sz. rreturn sz)
       else rfail (ErrBadPrefix ''read map'' prefix))"

text \<open>
  \<open>ReadStringAsBytes(dest)\<close> and \<open>ReadBytes(dest)\<close> read the header and then the payload
  with \<open>ReadNBytes(dest, sz)\<close>; the result is the payload.
\<close>

definition ReadStringAsBytes :: "bytes rd" where
  "ReadStringAsBytes = rbind ReadStringHeader (\<lambda>sz. ReadNBytes (unat sz))"

definition ReadBytes :: "bytes rd" where
  "ReadBytes = rbind ReadBytesHeader (\<lambda>sz. ReadNBytes (unat sz))"

text \<open>
  \<open>ReadNBytes(dest, n)\<close> reads into the backing array of \<open>dest\<close>, from its first byte on,
  when \<open>n\<close> is within the capacity of \<open>dest\<close>; otherwise it allocates a new array and
  leaves the one of \<open>dest\<close> alone.  \<open>io.ReadFull\<close> stores what it can read before it
  fails.  So when the call returns, with or without an error, the first bytes of the
  backing array of a \<open>dest\<close> of capacity \<open>capacity\<close> have been overwritten by
  \<open>ReadNBytes_dest capacity n br\<close>.  A caller whose own slice shares that array sees
  them (\<open>read_N\<close> and \<open>ReadString\<close> pass the scratch buffer of the reader, which nothing
  else looks at).  \<open>ReadStringAsBytes\<close> and \<open>ReadBytes\<close> do not call \<open>ReadNBytes\<close> when
  the header cannot be read.
\<close>

definition ReadNBytes_dest :: "nat \<Rightarrow> nat \<Rightarrow> Reader \<Rightarrow> bytes" where
  "ReadNBytes_dest capacity n br = (if n > capacity then [] else take n br)"

definition ReadStringAsBytes_dest :: "nat \<Rightarrow> Reader \<Rightarrow> bytes" where
  "ReadStringAsBytes_dest capacity br =
     (case ReadStringHeader br of
        (Ok sz, br') \<Rightarrow> ReadNBytes_dest capacity (unat sz) br'
      | (Err e, br') \<Rightarrow> []
      | (Panic p, br') \<Rightarrow> [])"

definition ReadBytes_dest :: "nat \<Rightarrow> Reader \<Rightarrow> bytes" where
  "ReadBytes_dest capacity br =
     (case ReadBytesHeader br of
        (Ok sz, br') \<Rightarrow> ReadNBytes_dest capacity (unat sz) br'
      | (Err e, br') \<Rightarrow> []
      | (Panic p, br') \<Rightarrow> [])"

text \<open>
  A Go \<open>string\<close> is an immutable byte sequence: a HOL \<open>string\<close>, whose characters are
  bytes.  \<open>string(buff)\<close> and \<open>[]byte(s)\<close> convert between the two.
\<close>

definition string_of_bytes :: "bytes \<Rightarrow> string" where
  "string_of_bytes buff = map (\<lambda>b. char_of (unat b)) buff"

definition bytes_of_string :: "string \<Rightarrow> bytes" where
  "bytes_of_string s = map of_char s"

definition ReadString :: "string rd" where
  "ReadString = rbind ReadStringAsBytes (\<lambda>buff. rreturn (string_of_bytes buff))"

section \<open>Go's \<open>unicode/utf8.RuneCount\<close>\<close>

text \<open>
  The standard library's rune counter, as written there: every byte that does not start
  a well-formed UTF-8 sequence counts as one rune of width one.  \<open>rune_size p\<close> is the
  number of bytes the loop advances by at the front of a non-empty \<open>p\<close>; the table
  \<open>first\<close> and the \<open>acceptRanges\<close> are written out as the byte ranges they encode.
\<close>

definition utf8_locb :: byte where "utf8_locb = 0x80"
definition utf8_hicb :: byte where "utf8_hicb = 0xBF"

text \<open>The declared size of the sequence a lead byte starts; 0 stands for the entry \<open>xx\<close>.\<close>

definition utf8_first_size :: "byte \<Rightarrow> nat" where
  "utf8_first_size c =
     (if c < 0x80 then 1
      else if c < 0xC2 then 0
      else if c \<le> 0xDF then 2
      else if c \<le> 0xEF then 3
      else if c \<le> 0xF4 then 4
      else 0)"

text \<open>The accepted range of the second byte after a lead byte.\<close>

definition utf8_accept :: "byte \<Rightarrow> byte \<times> byte" where
  "utf8_accept c =
     (if c = 0xE0 then (0xA0, utf8_hicb)
      else if c = 0xED then (utf8_locb, 0x9F)
      else if c = 0xF0 then (0x90, utf8_hicb)
      else if c = 0xF4 then (utf8_locb, 0x8F)
      else (utf8_locb, utf8_hicb))"

definition rune_size :: "bytes \<Rightarrow> nat" where
  "rune_size p =
     (let c = p ! 0; size = utf8_first_size c in
      if c < 0x80 then 1
      else if size = 0 then 1
      else if size > length p then 1
      else if p ! 1 < fst (utf8_accept c) \<or> snd (utf8_accept c) < p ! 1 then 1
      else if size = 2 then 2
      else if p ! 2 < utf8_locb \<or> utf8_hicb < p ! 2 then 1
      else if size = 3 then 3
      else if p ! 3 < utf8_locb \<or> utf8_hicb < p ! 3 then 1
      else 4)"

function RuneCount :: "bytes \<Rightarrow> nat" where
  "RuneCount p = (if p = [] then 0 else Suc (RuneCount (drop (rune_size p) p)))"
  by pat_completeness auto

section \<open>Package rsqlib: fields and rows\<close>

type_synonym Dtype_t = byte

definition DTYPE_VOID :: Dtype_t where "DTYPE_VOID = 1"
definition DTYPE_BOOLEAN :: Dtype_t where "DTYPE_BOOLEAN = 2"
definition DTYPE_VARBINARY :: Dtype_t where "DTYPE_VARBINARY = 4"
definition DTYPE_VARCHAR :: Dtype_t where "DTYPE_VARCHAR = 6"
definition DTYPE_BIT :: Dtype_t where "DTYPE_BIT = 9"
definition DTYPE_TINYINT :: Dtype_t where "DTYPE_TINYINT = 10"
definition DTYPE_SMALLINT :: Dtype_t where "DTYPE_SMALLINT = 11"
definition DTYPE_INT :: Dtype_t where "DTYPE_INT = 12"
definition DTYPE_BIGINT :: Dtype_t where "DTYPE_BIGINT = 13"
definition DTYPE_MONEY :: Dtype_t where "DTYPE_MONEY = 15"
definition DTYPE_NUMERIC :: Dtype_t where "DTYPE_NUMERIC = 16"
definition DTYPE_FLOAT :: Dtype_t where "DTYPE_FLOAT = 17"
definition DTYPE_DATE :: Dtype_t where "DTYPE_DATE = 19"
definition DTYPE_TIME :: Dtype_t where "DTYPE_TIME = 20"
definition DTYPE_DATETIME :: Dtype_t where "DTYPE_DATETIME = 21"

definition SECONDS_PER_DAY :: int where "SECONDS_PER_DAY = 24 * 3600"
definition UNIX_SEC_LOWEST :: int where "UNIX_SEC_LOWEST = - 62135596800"
definition UNIX_SEC_1900_01_01 :: int where "UNIX_SEC_1900_01_01 = - 2208988800"

text \<open>
  A \<open>time.Time\<close> is an instant (seconds since the Unix epoch and nanoseconds within the
  second) with a location.  The seconds are an \<open>int\<close>: the driver computes them in
  \<open>int64\<close> from \<open>uint32\<close> operands, far from overflow.  \<open>time.Unix(sec, nsec)\<close>
  normalises the nanoseconds into \<open>[0, 1e9)\<close> and yields a local time; \<open>.UTC()\<close> sets
  the location.  The driver only passes \<open>nsec \<ge> 0\<close>, where Go's truncating division is
  \<open>div\<close>.
\<close>

datatype Location = UTC | Local

datatype time_Time = Time_of (unix_sec: int) (nanosecond: int) (location: Location)

definition time_zero :: time_Time where
  "time_zero = Time_of UNIX_SEC_LOWEST 0 UTC"

definition time_Unix :: "int \<Rightarrow> int \<Rightarrow> time_Time" where
  "time_Unix sec nsec =
     (if nsec < 0 \<or> nsec \<ge> 1000000000 then
        (let n = sgn nsec * (\<bar>nsec\<bar> div 1000000000);
             sec1 = sec + n;
             nsec1 = nsec - n * 1000000000
         in if nsec1 < 0 then Time_of (sec1 - 1) (nsec1 + 1000000000) Local
            else Time_of sec1 nsec1 Local)
      else Time_of sec nsec Local)"

definition time_UTC :: "time_Time \<Rightarrow> time_Time" where
  "time_UTC t = Time_of (unix_sec t) (nanosecond t) UTC"

text \<open>
  What the driver takes from Go's standard library and runtime and what depends on
  floating point, the calendar, the local time zone or the allocator is a parameter:
  \<open>strconv.FormatFloat(v, 'g', -1, 64)\<close>, \<open>time.Time.Format(layout)\<close>, \<open>time.Date\<close> of a
  time's own date and clock in \<open>time.Local\<close> (the body of \<open>LocalizeTime\<close>), and
  \<open>growslice l c n\<close>, the capacity of the array that \<open>append\<close> allocates when a slice of
  length \<open>l\<close> and capacity \<open>c\<close> has to grow to \<open>n\<close> elements.
\<close>

record GoLib =
  FormatFloat :: "uint64 \<Rightarrow> string"
  Format :: "string \<Rightarrow> time_Time \<Rightarrow> string"
  Date_in_Local :: "time_Time \<Rightarrow> time_Time"
  growslice :: "nat \<Rightarrow> nat \<Rightarrow> nat \<Rightarrow> nat"

text \<open>
  The \<open>[]byte\<close> of a field: its elements and the capacity of its backing array.  The
  bytes of the array beyond the length are never read.  The nil slice has no element
  and capacity 0.  A slice of length \<open>l\<close> and capacity \<open>c\<close> that is appended to up to
  \<open>n\<close> elements keeps its backing array, of capacity \<open>c\<close>, when \<open>n \<le> c\<close>; otherwise a
  new array is allocated, of the capacity the runtime chooses and at least \<open>n\<close>.
\<close>

datatype slice = Slice (elems: bytes) (cap: nat)

definition grown_cap :: "GoLib \<Rightarrow> nat \<Rightarrow> nat \<Rightarrow> nat \<Rightarrow> nat" where
  "grown_cap lib l c n = (if n \<le> c then c else max n (growslice lib l c n))"

text \<open>\<open>append(s, bs...)\<close>.\<close>

definition append_slice :: "GoLib \<Rightarrow> slice \<Rightarrow> bytes \<Rightarrow> slice" where
  "append_slice lib s bs =
     Slice (elems s @ bs)
       (grown_cap lib (length (elems s)) (cap s) (length (elems s) + length bs))"

text \<open>
  The slice that \<open>ReadNBytes(s[:0], n)\<close> returns when it has read the \<open>n\<close> bytes \<open>val\<close>:
  when \<open>n\<close> is above the capacity of \<open>s\<close> the new array comes from
  \<open>append(buff[:capacity], make([]byte, extra)...)\<close>.
\<close>

definition stored :: "GoLib \<Rightarrow> slice \<Rightarrow> bytes \<Rightarrow> slice" where
  "stored lib s val = Slice val (grown_cap lib (cap s) (cap s) (length val))"

text \<open>
  The slice \<open>s\<close> after the first bytes of its backing array have been overwritten by
  \<open>written\<close>: its length and capacity are as before.
\<close>

definition overwritten :: "slice \<Rightarrow> bytes \<Rightarrow> slice" where
  "overwritten s written =
     Slice (take (length (elems s)) written @ drop (length written) (elems s)) (cap s)"

text \<open>
  The field variants implementing \<open>IField\<close>, each with the fields of its struct in
  declaration order (\<open>Precision\<close>, \<open>Scale\<close>/\<open>Fixlen\<close>, \<open>Is_Null\<close>, \<open>Val\<close>).
\<close>

datatype IField =
    Void bool
  | Boolean bool bool
  | Varbinary uint16 bool slice
  | Varchar uint16 bool bool slice
  | Bit bool byte
  | Tinyint bool byte
  | Smallint bool uint16
  | Int' bool uint32
  | Bigint bool int64
  | Money uint16 uint16 bool slice
  | Numeric uint16 uint16 bool slice
  | Float bool uint64
  | Date bool time_Time
  | Time bool time_Time
  | Datetime bool time_Time

fun Datatype :: "IField \<Rightarrow> Dtype_t" where
  "Datatype (Void _) = DTYPE_VOID"
| "Datatype (Boolean _ _) = DTYPE_BOOLEAN"
| "Datatype (Varbinary _ _ _) = DTYPE_VARBINARY"
| "Datatype (Varchar _ _ _ _) = DTYPE_VARCHAR"
| "Datatype (Bit _ _) = DTYPE_BIT"
| "Datatype (Tinyint _ _) = DTYPE_TINYINT"
| "Datatype (Smallint _ _) = DTYPE_SMALLINT"
| "Datatype (Int' _ _) = DTYPE_INT"
| "Datatype (Bigint _ _) = DTYPE_BIGINT"
| "Datatype (Money _ _ _ _) = DTYPE_MONEY"
| "Datatype (Numeric _ _ _ _) = DTYPE_NUMERIC"
| "Datatype (Float _ _) = DTYPE_FLOAT"
| "Datatype (Date _ _) = DTYPE_DATE"
| "Datatype (Time _ _) = DTYPE_TIME"
| "Datatype (Datetime _ _) = DTYPE_DATETIME"

fun IsNull :: "IField \<Rightarrow> bool" where
  "IsNull (Void n) = n"
| "IsNull (Boolean n _) = n"
| "IsNull (Varbinary _ n _) = n"
| "IsNull (Varchar _ _ n _) = n"
| "IsNull (Bit n _) = n"
| "IsNull (Tinyint n _) = n"
| "IsNull (Smallint n _) = n"
| "IsNull (Int' n _) = n"
| "IsNull (Bigint n _) = n"
| "IsNull (Money _ _ n _) = n"
| "IsNull (Numeric _ _ n _) = n"
| "IsNull (Float n _) = n"
| "IsNull (Date n _) = n"
| "IsNull (Time n _) = n"
| "IsNull (Datetime n _) = n"

text \<open>\<open>assert(val)\<close> panics when \<open>val\<close> is false.\<close>

definition assert :: "bool \<Rightarrow> unit rd" where
  "assert val br = (if val then (Ok (), br) else (Panic ''assertion failed'', br))"

primrec colname_loop :: "nat \<Rightarrow> string list \<Rightarrow> string list rd" where
  "colname_loop 0 colname_list = rreturn colname_list"
| "colname_loop (Suc n) colname_list =
     rbind ReadString (\<lambda>colname. colname_loop n (colname_list @ [colname]))"

definition Create_colname_list :: "string list rd" where
  "Create_colname_list =
     rbind ReadArrayHeader (\<lambda>row_size. colname_loop (unat row_size) [])"

definition new_field :: "IField rd" where
  "new_field =
     rbind ReadArrayHeader (\<lambda>sz.
     rbind ReadUint8 (\<lambda>u.
       if u = DTYPE_VOID then rbind (assert (sz = 1)) (\<lambda>_. rreturn (Void True))
       else if u = DTYPE_BOOLEAN then rbind (assert (sz = 1)) (\<lambda>_. rreturn (Boolean True False))
       else if u = DTYPE_VARBINARY then
         rbind (assert (sz = 2)) (\<lambda>_.
         rbind ReadUint16 (\<lambda>precision. rreturn (Varbinary precision True (Slice [] 0))))
       else if u = DTYPE_VARCHAR then
         rbind (assert (sz = 3)) (\<lambda>_.
         rbind ReadUint16 (\<lambda>precision.
         rbind ReadBool (\<lambda>fixlen. rreturn (Varchar precision fixlen True (Slice [] 0)))))
       else if u = DTYPE_BIT then rbind (assert (sz = 1)) (\<lambda>_. rreturn (Bit True 0))
       else if u = DTYPE_TINYINT then rbind (assert (sz = 1)) (\<lambda>_. rreturn (Tinyint True 0))
       else if u = DTYPE_SMALLINT then rbind (assert (sz = 1)) (\<lambda>_. rreturn (Smallint True 0))
       else if u = DTYPE_INT then rbind (assert (sz = 1)) (\<lambda>_. rreturn (Int' True 0))
       else if u = DTYPE_BIGINT then rbind (assert (sz = 1)) (\<lambda>_. rreturn (Bigint True 0))
       else if u = DTYPE_MONEY then
         rbind (assert (sz = 3)) (\<lambda>_.
         rbind ReadUint16 (\<lambda>precision.
         rbind ReadUint16 (\<lambda>scale. rreturn (Money precision scale True (Slice [] 0)))))
       else if u = DTYPE_NUMERIC then
         rbind (assert (sz = 3)) (\<lambda>_.
         rbind ReadUint16 (\<lambda>precision.
         rbind ReadUint16 (\<lambda>scale. rreturn (Numeric precision scale True (Slice [] 0)))))
       else if u = DTYPE_FLOAT then rbind (assert (sz = 1)) (\<lambda>_. rreturn (Float True 0))
       else if u = DTYPE_DATE then rbind (assert (sz = 1)) (\<lambda>_. rreturn (Date True time_zero))
       else if u = DTYPE_TIME then rbind (assert (sz = 1)) (\<lambda>_. rreturn (Time True time_zero))
       else if u = DTYPE_DATETIME then
         rbind (assert (sz = 1)) (\<lambda>_. rreturn (Datetime True time_zero))
       else rfail ErrUnknownDatatype))"

primrec row_loop :: "nat \<Rightarrow> IField list \<Rightarrow> IField list rd" where
  "row_loop 0 row = rreturn row"
| "row_loop (Suc n) row = rbind new_field (\<lambda>field. row_loop n (row @ [field]))"

definition Create_row :: "IField list rd" where
  "Create_row = rbind ReadArrayHeader (\<lambda>row_size. row_loop (unat row_size) [])"

section \<open>Package rsqlib: filling a row with values\<close>

text \<open>
  Every \<open>read_value\<close> peeks the type of the next value first.  In the nil branch the
  source writes \<open>if mr.ReadNil(); err != nil\<close>: the nil is consumed, the result of
  \<open>ReadNil\<close> is dropped and the tested \<open>err\<close> is the one of \<open>NextType\<close>, which is nil
  there.  \<open>discard\<close> runs a reader for its effect on the input only.
\<close>

definition discard :: "'a rd \<Rightarrow> unit rd" where
  "discard m br = (Ok (), snd (m br))"

text \<open>
  \<open>nullable null_field read_val\<close> is the frame the optional types share: on a nil the
  field becomes \<open>null_field\<close>, otherwise \<open>read_val\<close> reads the value.
\<close>

definition nullable :: "IField \<Rightarrow> IField rd \<Rightarrow> IField rd" where
  "nullable null_field read_val =
     rbind NextType (\<lambda>objtype.
       if objtype = NilType then rbind (discard ReadNil) (\<lambda>_. rreturn null_field)
       else read_val)"

text \<open>
  \<open>read_value\<close> updates the field it is called on and returns an error: the model
  returns the field as the call leaves it beside the outcome.  The fields whose value is
  not a byte slice are assigned only when everything has been read: \<open>assign field m\<close> is
  the field that \<open>m\<close> yields, and \<open>field\<close> itself when \<open>m\<close> fails.
\<close>

definition assign :: "IField \<Rightarrow> IField rd \<Rightarrow> Reader \<Rightarrow> (unit res \<times> IField) \<times> Reader" where
  "assign field m br =
     (case m br of
        (Ok field', br') \<Rightarrow> ((Ok (), field'), br')
      | (Err e, br') \<Rightarrow> ((Err e, field), br')
      | (Panic p, br') \<Rightarrow> ((Panic p, field), br'))"

text \<open>
  The padding of a fixed-length \<open>Varchar\<close>: when the rune count is below the
  precision, \<open>padding_length\<close> zero bytes are appended and every one of them is then
  overwritten by a blank.
\<close>

definition pad_fixlen :: "GoLib \<Rightarrow> uint16 \<Rightarrow> slice \<Rightarrow> slice" where
  "pad_fixlen lib precision val =
     (let rune_count = RuneCount (elems val) in
      if rune_count < unat precision then
        (let padding_length = unat precision - rune_count
         in append_slice lib val (replicate padding_length 0x20))
      else val)"

text \<open>
  The four fields whose value is a byte slice read it with
  \<open>val, err = mr.ReadBytes(field.Val[:0])\<close> or \<open>mr.ReadStringAsBytes(field.Val[:0])\<close>,
  into the backing array of the value they hold.  \<open>mk\<close> is the field without \<open>Is_Null\<close>
  and \<open>Val\<close>, \<open>read\<close> the reader and \<open>read_dest\<close> what it writes into its destination,
  \<open>finish\<close> what is done to the value read before it is stored.  On a nil the field
  becomes null and its slice is cut to length 0.  When the read fails, \<open>Is_Null\<close> and
  \<open>Val\<close> are not assigned, and the bytes the read has written into the backing array show
  through \<open>Val\<close>.
\<close>

definition read_bytes_value ::
    "GoLib \<Rightarrow> bytes rd \<Rightarrow> (nat \<Rightarrow> Reader \<Rightarrow> bytes) \<Rightarrow> (bool \<Rightarrow> slice \<Rightarrow> IField) \<Rightarrow> bool \<Rightarrow> slice
     \<Rightarrow> (slice \<Rightarrow> slice) \<Rightarrow> Reader \<Rightarrow> (unit res \<times> IField) \<times> Reader" where
  "read_bytes_value lib read read_dest mk is_null v finish br =
     (case NextType br of
        (Err e, br1) \<Rightarrow> ((Err e, mk is_null v), br1)
      | (Panic p, br1) \<Rightarrow> ((Panic p, mk is_null v), br1)
      | (Ok objtype, br1) \<Rightarrow>
          if objtype = NilType then ((Ok (), mk True (Slice [] (cap v))), snd (ReadNil br1))
          else
            (case read br1 of
               (Err e, br2) \<Rightarrow>
                 ((Err e, mk is_null (overwritten v (read_dest (cap v) br1))), br2)
             | (Panic p, br2) \<Rightarrow> ((Panic p, mk is_null v), br2)
             | (Ok val, br2) \<Rightarrow> ((Ok (), mk False (finish (stored lib v val))), br2)))"

fun read_value :: "GoLib \<Rightarrow> IField \<Rightarrow> Reader \<Rightarrow> (unit res \<times> IField) \<times> Reader" where
  "read_value lib (Void is_null) =
     assign (Void is_null)
       (rbind NextType (\<lambda>objtype.
        rbind (assert (objtype = NilType)) (\<lambda>_.
        rbind (discard ReadNil) (\<lambda>_. rreturn (Void True)))))"
| "read_value lib (Boolean is_null v) =
     assign (Boolean is_null v)
       (nullable (Boolean True False)
          (rbind ReadBool (\<lambda>val. rreturn (Boolean False val))))"
| "read_value lib (Varbinary precision is_null v) =
     read_bytes_value lib ReadBytes ReadBytes_dest (Varbinary precision) is_null v (\<lambda>val. val)"
| "read_value lib (Varchar precision fixlen is_null v) =
     read_bytes_value lib ReadStringAsBytes ReadStringAsBytes_dest (Varchar precision fixlen)
       is_null v (\<lambda>val. if fixlen then pad_fixlen lib precision val else val)"
| "read_value lib (Bit is_null v) =
     assign (Bit is_null v)
       (nullable (Bit True 0)
          (rbind ReadUint8 (\<lambda>val.
           rbind (assert (val \<le> 1)) (\<lambda>_. rreturn (Bit False val)))))"
| "read_value lib (Tinyint is_null v) =
     assign (Tinyint is_null v)
       (nullable (Tinyint True 0)
          (rbind ReadUint8 (\<lambda>val. rreturn (Tinyint False val))))"
| "read_value lib (Smallint is_null v) =
     assign (Smallint is_null v)
       (nullable (Smallint True 0)
          (rbind ReadInt16 (\<lambda>val. rreturn (Smallint False val))))"
| "read_value lib (Int' is_null v) =
     assign (Int' is_null v)
       (nullable (Int' True 0)
          (rbind ReadInt32 (\<lambda>val. rreturn (Int' False val))))"
| "read_value lib (Bigint is_null v) =
     assign (Bigint is_null v)
       (nullable (Bigint True 0)
          (rbind ReadInt64 (\<lambda>val. rreturn (Bigint False val))))"
| "read_value lib (Money precision scale is_null v) =
     read_bytes_value lib ReadStringAsBytes ReadStringAsBytes_dest (Money precision scale)
       is_null v (\<lambda>val. val)"
| "read_value lib (Numeric precision scale is_null v) =
     read_bytes_value lib ReadStringAsBytes ReadStringAsBytes_dest (Numeric precision scale)
       is_null v (\<lambda>val. val)"
| "read_value lib (Float is_null v) =
     assign (Float is_null v)
       (nullable (Float True 0)
          (rbind ReadFloat64 (\<lambda>val. rreturn (Float False val))))"
| "read_value lib (Date is_null v) =
     assign (Date is_null v)
       (nullable (Date True time_zero)
          (rbind ReadUint32 (\<lambda>delta_days.
             rreturn (Date False
               (time_UTC (time_Unix (UNIX_SEC_LOWEST + uint delta_days * SECONDS_PER_DAY) 0))))))"
| "read_value lib (Time is_null v) =
     assign (Time is_null v)
       (nullable (Time True time_zero)
          (rbind ReadArrayHeader (\<lambda>sz.
           rbind (assert (sz = 2)) (\<lambda>_.
           rbind ReadUint32 (\<lambda>delta_seconds.
           rbind ReadUint32 (\<lambda>delta_ns.
             rreturn (Time False
               (time_UTC (time_Unix (UNIX_SEC_1900_01_01 + uint delta_seconds)
                                    (uint delta_ns))))))))))"
| "read_value lib (Datetime is_null v) =
     assign (Datetime is_null v)
       (nullable (Datetime True time_zero)
          (rbind ReadArrayHeader (\<lambda>sz.
           rbind (assert (sz = 3)) (\<lambda>_.
           rbind ReadUint32 (\<lambda>delta_days.
           rbind ReadUint32 (\<lambda>delta_seconds.
           rbind ReadUint32 (\<lambda>delta_ns.
             rreturn (Datetime False
               (time_UTC (time_Unix
                  ((UNIX_SEC_LOWEST + uint delta_days * SECONDS_PER_DAY) + uint delta_seconds)
                  (uint delta_ns)))))))))))"

text \<open>
  \<open>Fill_row_with_values\<close> updates the fields of the row in place, so the fields read
  before a failure keep their new values and the field whose read failed is as that
  read left it: the row after the call is returned beside the outcome.
\<close>

fun fill_loop :: "GoLib \<Rightarrow> IField list \<Rightarrow> Reader \<Rightarrow> (unit res \<times> IField list) \<times> Reader" where
  "fill_loop lib [] br = ((Ok (), []), br)"
| "fill_loop lib (field # row) br =
     (case read_value lib field br of
        ((Ok _, field'), br') \<Rightarrow>
          (case fill_loop lib row br' of ((r, row'), br'') \<Rightarrow> ((r, field' # row'), br''))
      | ((Err e, field'), br') \<Rightarrow> ((Err e, field' # row), br')
      | ((Panic p, field'), br') \<Rightarrow> ((Panic p, field' # row), br'))"

definition Fill_row_with_values ::
    "GoLib \<Rightarrow> IField list \<Rightarrow> Reader \<Rightarrow> (unit res \<times> IField list) \<times> Reader" where
  "Fill_row_with_values lib row br =
     (case ReadArrayHeader br of
        (Ok row_size, br') \<Rightarrow>
          (if length row = unat row_size then fill_loop lib row br'
           else ((Panic ''assertion failed'', row), br'))
      | (Err e, br') \<Rightarrow> ((Err e, row), br')
      | (Panic p, br') \<Rightarrow> ((Panic p, row), br'))"

definition Read_string :: "string rd" where
  "Read_string = rbind ReadString (\<lambda>s. rreturn s)"

definition Read_int64 :: "int64 rd" where
  "Read_int64 = rbind ReadInt64 (\<lambda>val. rreturn val)"

section \<open>Package rsqlib: the session\<close>

type_synonym Response_t = byte

definition RESTYP_LOGIN_FAILED :: Response_t where "RESTYP_LOGIN_FAILED = 0"
definition RESTYP_LOGIN_SUCCESS :: Response_t where "RESTYP_LOGIN_SUCCESS = 1"
definition RESTYP_RECORD_LAYOUT :: Response_t where "RESTYP_RECORD_LAYOUT = 3"
definition RESTYP_RECORD :: Response_t where "RESTYP_RECORD = 4"
definition RESTYP_RECORD_FINISHED :: Response_t where "RESTYP_RECORD_FINISHED = 5"
definition RESTYP_EXECUTION_FINISHED :: Response_t where "RESTYP_EXECUTION_FINISHED = 7"
definition RESTYP_PRINT :: Response_t where "RESTYP_PRINT = 10"
definition RESTYP_MESSAGE :: Response_t where "RESTYP_MESSAGE = 11"
definition RESTYP_ERROR :: Response_t where "RESTYP_ERROR = 12"
definition RESTYP_BATCH_END :: Response_t where "RESTYP_BATCH_END = 14"

record Error_info =
  src_file :: string
  src_line_no :: int64
  src_funcname :: string
  src_backtrace :: string
  category :: string
  message :: string
  severity :: string
  state :: int64
  text' :: string
  line_no :: int64
  line_pos :: int64

text \<open>The zero value of the struct, which \<open>Read_Error_info\<close> starts from.\<close>

definition Error_info_zero :: Error_info where
  "Error_info_zero =
     \<lparr>src_file = [], src_line_no = 0, src_funcname = [], src_backtrace = [],
      category = [], message = [], severity = [], state = 0, text' = [],
      line_no = 0, line_pos = 0\<rparr>"

definition Read_response_type :: "Response_t rd" where
  "Read_response_type = rbind ReadUint8 (\<lambda>u. rreturn u)"

text \<open>
  The \<open>switch key\<close> of \<open>Read_Error_info\<close>: a known key reads its value into the field;
  the switch has no default case, so for any other key nothing is read.
\<close>

definition read_error_field :: "string \<Rightarrow> Error_info \<Rightarrow> Error_info rd" where
  "read_error_field key error_info =
     (if key = ''src_file'' then
        rbind ReadString (\<lambda>v. rreturn (error_info\<lparr>src_file := v\<rparr>))
      else if key = ''src_line_no'' then
        rbind ReadInt64 (\<lambda>v. rreturn (error_info\<lparr>src_line_no := v\<rparr>))
      else if key = ''src_funcname'' then
        rbind ReadString (\<lambda>v. rreturn (error_info\<lparr>src_funcname := v\<rparr>))
      else if key = ''src_backtrace'' then
        rbind ReadString (\<lambda>v. rreturn (error_info\<lparr>src_backtrace := v\<rparr>))
      else if key = ''category'' then
        rbind ReadString (\<lambda>v. rreturn (error_info\<lparr>category := v\<rparr>))
      else if key = ''message'' then
        rbind ReadString (\<lambda>v. rreturn (error_info\<lparr>message := v\<rparr>))
      else if key = ''severity'' then
        rbind ReadString (\<lambda>v. rreturn (error_info\<lparr>severity := v\<rparr>))
      else if key = ''state'' then
        rbind ReadInt64 (\<lambda>v. rreturn (error_info\<lparr>state := v\<rparr>))
      else if key = ''text'' then
        rbind ReadString (\<lambda>v. rreturn (error_info\<lparr>text' := v\<rparr>))
      else if key = ''line_no'' then
        rbind ReadInt64 (\<lambda>v. rreturn (error_info\<lparr>line_no := v\<rparr>))
      else if key = ''line_pos'' then
        rbind ReadInt64 (\<lambda>v. rreturn (error_info\<lparr>line_pos := v\<rparr>))
      else rreturn error_info)"

primrec error_info_loop :: "nat \<Rightarrow> Error_info \<Rightarrow> Error_info rd" where
  "error_info_loop 0 error_info = rreturn error_info"
| "error_info_loop (Suc n) error_info =
     rbind ReadString (\<lambda>key.
     rbind (read_error_field key error_info) (\<lambda>error_info'.
       error_info_loop n error_info'))"

definition Read_Error_info :: "Error_info rd" where
  "Read_Error_info =
     rbind ReadMapHeader (\<lambda>errobj_size. error_info_loop (unat errobj_size) Error_info_zero)"

definition Read_batch_end_RC :: "int64 rd" where
  "Read_batch_end_RC = rbind ReadInt64 (\<lambda>rc. rreturn rc)"

text \<open>
  A \<open>Session\<close> owns the reader, the keepalive ticker, the channel \<open>ticker_done\<close> and the
  socket.  Of the last three only what \<open>Close\<close> depends on is kept: whether the ticker
  was stopped, whether the channel has been closed, whether the socket has been closed.
  \<open>Connect\<close> returns a session with a running ticker, an open channel and an open socket
  (\<open>new_Session\<close>); dialling and the authentication exchange are not modelled.
\<close>

record Session =
  mr :: Reader
  ticker_stopped :: bool
  ticker_done_closed :: bool
  conn_closed :: bool

definition new_Session :: "Reader \<Rightarrow> Session" where
  "new_Session br =
     \<lparr>mr = br, ticker_stopped = False, ticker_done_closed = False, conn_closed = False\<rparr>"

text \<open>
  \<open>Session.Close\<close>: \<open>ticker.Stop()\<close> may be called any number of times; \<open>close\<close> of a
  channel that is already closed is a run-time panic in Go; \<open>net.Conn.Close\<close> on a
  closed socket returns an error.  The result is the error \<open>Close\<close> returns (none on
  success).
\<close>

definition Close :: "Session \<Rightarrow> error option res \<times> Session" where
  "Close session =
     (let s1 = session\<lparr>ticker_stopped := True\<rparr> in
      if ticker_done_closed s1 then (Panic ''close of closed channel'', s1)
      else
        (let s2 = s1\<lparr>ticker_done_closed := True\<rparr> in
         if conn_closed s2 then (Ok (Some ErrNetClosed), s2)
         else (Ok None, s2\<lparr>conn_closed := True\<rparr>)))"

section \<open>Package drv: connection and batch\<close>

text \<open>
  Of a \<open>Connection\<close> the batch engine uses the session and the dirty flag; the
  connection-string attributes are left out.  A \<open>Batch\<close> points to its connection; the
  model keeps the connection inside the batch, so that a call on the batch returns the
  updated connection with it.  A nil slice or map is \<open>None\<close>.
\<close>

record Connection =
  session :: Session
  isDirty :: bool

datatype status =
    sTATUS_ZERO  \<comment> \<open>the zero value, before the batch is sent\<close>
  | sTATUS_BATCH_SENT
  | sTATUS_RECORD_LAYOUT_AVAILABLE
  | sTATUS_RECORD_AVAILABLE
  | sTATUS_RECORD_END
  | sTATUS_BATCH_END

record Batch =
  conn :: Connection
  sql_text :: string
  status :: status
  recordsetCount :: int64
  colnameList :: "string list option"
  colnameMap :: "(string \<rightharpoonup> nat) option"
  record' :: "IField list option"
  recordCount :: int64
  execRecordCount :: int64
  err :: "error option"
  rc :: int64

datatype stepOption = sTEP_NEXT_RECORD | sTEP_FINALIZE

definition newBatchError :: "Error_info \<Rightarrow> BatchError" where
  "newBatchError e =
     \<lparr>SrcFile = src_file e, SrcLineNo = src_line_no e, SrcFuncname = src_funcname e,
      SrcBacktrace = src_backtrace e, Category = category e, Message = message e,
      Severity = severity e, State = state e, Text = text' e, LineNo = line_no e,
      LinePos = line_pos e\<rparr>"

text \<open>
  The loop of \<open>Batch.step\<close> that builds the column-name map, as the source has it: for
  a non-empty name, when the name is already in the map its entry is set to \<open>i\<close>,
  otherwise the name is deleted from the map.
\<close>

fun colnameMap_loop :: "nat \<Rightarrow> string list \<Rightarrow> (string \<rightharpoonup> nat) \<Rightarrow> (string \<rightharpoonup> nat)" where
  "colnameMap_loop i [] colnameMap' = colnameMap'"
| "colnameMap_loop i (name # names) colnameMap' =
     (if name = [] then colnameMap_loop (Suc i) names colnameMap'
      else if colnameMap' name \<noteq> None
        then colnameMap_loop (Suc i) names (colnameMap'(name \<mapsto> i))
      else colnameMap_loop (Suc i) names (colnameMap'(name := None)))"

definition build_colnameMap :: "string list \<Rightarrow> (string \<rightharpoonup> nat)" where
  "build_colnameMap colnameList' = colnameMap_loop 0 colnameList' Map.empty"

definition get_mr :: "Batch \<Rightarrow> Reader" where
  "get_mr b = mr (session (conn b))"

definition set_mr :: "Reader \<Rightarrow> Batch \<Rightarrow> Batch" where
  "set_mr br b = b\<lparr>conn := (conn b)\<lparr>session := (session (conn b))\<lparr>mr := br\<rparr>\<rparr>\<rparr>"

text \<open>What one pass through the \<open>switch\<close> of the message loop does with the loop.\<close>

datatype step_result =
    Continue Batch           \<comment> \<open>go round the loop again\<close>
  | Return bool Batch        \<comment> \<open>\<open>return\<close> this value\<close>
  | Panicked string Batch    \<comment> \<open>a panic\<close>

text \<open>
  The idiom \<open>if x, err = session.F(); err != nil { b.err = err; return false }\<close>, then
  the rest of the case.
\<close>

definition on_session :: "'a rd \<Rightarrow> Batch \<Rightarrow> ('a \<Rightarrow> Batch \<Rightarrow> step_result) \<Rightarrow> step_result" where
  "on_session m b k =
     (case m (get_mr b) of
        (Ok x, br) \<Rightarrow> k x (set_mr br b)
      | (Err e, br) \<Rightarrow> Return False ((set_mr br b)\<lparr>err := Some e\<rparr>)
      | (Panic p, br) \<Rightarrow> Panicked p (set_mr br b))"

text \<open>The same idiom for \<open>Fill_row_with_values\<close>, which also leaves an updated row.\<close>

definition on_fill :: "GoLib \<Rightarrow> IField list \<Rightarrow> Batch \<Rightarrow> (IField list \<Rightarrow> Batch \<Rightarrow> Batch)
    \<Rightarrow> (Batch \<Rightarrow> step_result) \<Rightarrow> step_result" where
  "on_fill lib row b store k =
     (case Fill_row_with_values lib row (get_mr b) of
        ((Ok _, row'), br) \<Rightarrow> k (store row' (set_mr br b))
      | ((Err e, row'), br) \<Rightarrow> Return False ((store row' (set_mr br b))\<lparr>err := Some e\<rparr>)
      | ((Panic p, row'), br) \<Rightarrow> Panicked p (store row' (set_mr br b)))"

definition step_switch :: "GoLib \<Rightarrow> stepOption \<Rightarrow> Response_t \<Rightarrow> Batch \<Rightarrow> step_result" where
  "step_switch lib option resp b =
     (if resp = RESTYP_RECORD_LAYOUT then
        on_session Create_colname_list b (\<lambda>colnameList' b1.
          let b2 = b1\<lparr>colnameList := Some colnameList',
                      colnameMap := Some (build_colnameMap colnameList')\<rparr>
          in on_session Create_row b2 (\<lambda>row b3.
               let b4 = b3\<lparr>record' := Some row, recordCount := 0,
                           recordsetCount := recordsetCount b3 + 1,
                           status := sTATUS_RECORD_LAYOUT_AVAILABLE\<rparr>
               in if option = sTEP_NEXT_RECORD then Return False b4 else Continue b4))
      else if resp = RESTYP_RECORD then
        on_fill lib (case record' b of None \<Rightarrow> [] | Some row \<Rightarrow> row) b
          (\<lambda>row' b1. b1\<lparr>record' := map_option (\<lambda>_. row') (record' b1)\<rparr>)
          (\<lambda>b1.
             let b2 = b1\<lparr>recordCount := recordCount b1 + 1, status := sTATUS_RECORD_AVAILABLE\<rparr>
             in if option = sTEP_NEXT_RECORD then Return True b2 else Continue b2)
      else if resp = RESTYP_RECORD_FINISHED then
        on_session Read_int64 b (\<lambda>recordCount' b1.
          if recordCount' \<noteq> recordCount b1
            then Return False
                   (b1\<lparr>err := Some (ErrRecordcountMismatch recordCount' (recordCount b1))\<rparr>)
          else Continue (b1\<lparr>colnameList := None, colnameMap := None, record' := None,
                            recordCount := recordCount', status := sTATUS_RECORD_END\<rparr>))
      else if resp = RESTYP_EXECUTION_FINISHED then
        on_session Read_int64 b (\<lambda>execRecordCount' b1.
          Continue (b1\<lparr>execRecordCount := execRecordCount'\<rparr>))
      else if resp = RESTYP_PRINT then
        on_session Create_row b (\<lambda>row b1.
          on_fill lib row b1 (\<lambda>row' b2. b2) (\<lambda>b2. Continue b2))
      else if resp = RESTYP_MESSAGE then
        on_session Read_string b (\<lambda>msg_string b1. Continue b1)
      else if resp = RESTYP_ERROR then
        on_session Read_Error_info b (\<lambda>error_info b1.
          Continue (b1\<lparr>err := Some (ErrBatch (newBatchError error_info))\<rparr>))
      else if resp = RESTYP_BATCH_END then
        on_session Read_batch_end_RC b (\<lambda>rc' b1.
          Return False (b1\<lparr>rc := rc', status := sTATUS_BATCH_END,
                           conn := (conn b1)\<lparr>isDirty := False\<rparr>\<rparr>))
      else Panicked ''impossible'' b)"

text \<open>
  The message loop: read a response type, run the switch, go round again unless the case
  returned.  Every round consumes at least the byte of the response type.
\<close>

function step_loop :: "GoLib \<Rightarrow> stepOption \<Rightarrow> Batch \<Rightarrow> bool res \<times> Batch" where
  "step_loop lib option b =
     (case Read_response_type (get_mr b) of
        (Err e, br) \<Rightarrow> (Ok False, (set_mr br b)\<lparr>err := Some e\<rparr>)
      | (Panic p, br) \<Rightarrow> (Panic p, set_mr br b)
      | (Ok resp, br) \<Rightarrow>
          (case step_switch lib option resp (set_mr br b) of
             Continue b' \<Rightarrow> step_loop lib option b'
           | Return r b' \<Rightarrow> (Ok r, b')
           | Panicked p b' \<Rightarrow> (Panic p, b')))"
  by pat_completeness auto

definition step :: "GoLib \<Rightarrow> stepOption \<Rightarrow> Batch \<Rightarrow> bool res \<times> Batch" where
  "step lib option b = (if err b \<noteq> None then (Ok False, b) else step_loop lib option b)"

definition Next :: "GoLib \<Rightarrow> Batch \<Rightarrow> bool res \<times> Batch" where
  "Next lib b = step lib sTEP_NEXT_RECORD b"

definition ExistsNextRecordset :: "Batch \<Rightarrow> bool" where
  "ExistsNextRecordset b = (status b = sTATUS_RECORD_LAYOUT_AVAILABLE)"

text \<open>\<open>Finalize\<close> returns the error of the batch (\<open>None\<close> for nil).\<close>

definition Finalize :: "GoLib \<Rightarrow> Batch \<Rightarrow> error option res \<times> Batch" where
  "Finalize lib b =
     (if err b \<noteq> None then (Ok (err b), b)
      else if status b \<noteq> sTATUS_BATCH_END then
        (case step lib sTEP_FINALIZE b of
           (Ok _, b') \<Rightarrow> (Ok (err b'), b')
         | (Err e, b') \<Rightarrow> (Err e, b')
         | (Panic p, b') \<Rightarrow> (Panic p, b'))
      else (Ok (err b), b))"

section \<open>Package drv: reading the current record\<close>

text \<open>
  \<open>strconv.ParseBool\<close>, \<open>strconv.FormatInt(v, 10)\<close> and \<open>fmt.Sprintf("0x%x", v)\<close> are
  written out.
\<close>

definition ParseBool :: "string \<Rightarrow> bool option" where
  "ParseBool str =
     (if str \<in> set [''1'', ''t'', ''T'', ''true'', ''TRUE'', ''True''] then Some True
      else if str \<in> set [''0'', ''f'', ''F'', ''false'', ''FALSE'', ''False''] then Some False
      else None)"

fun dec_digits :: "nat \<Rightarrow> string" where
  "dec_digits n =
     (if n < 10 then [char_of (48 + n)]
      else dec_digits (n div 10) @ [char_of (48 + n mod 10)])"

definition FormatInt :: "int \<Rightarrow> string" where
  "FormatInt i = (if i < 0 then CHR ''-'' # dec_digits (nat (- i)) else dec_digits (nat i))"

definition hex_digit :: "nat \<Rightarrow> char" where
  "hex_digit n = (if n < 10 then char_of (48 + n) else char_of (87 + n))"

definition Sprintf_0x :: "bytes \<Rightarrow> string" where
  "Sprintf_0x v =
     ''0x'' @ concat (map (\<lambda>b. [hex_digit (unat b div 16), hex_digit (unat b mod 16)]) v)"

definition NULL_STRING :: string where
  "NULL_STRING = ''<NULL>''"

fun String :: "GoLib \<Rightarrow> IField \<Rightarrow> string" where
  "String lib (Void is_null) = NULL_STRING"
| "String lib (Boolean is_null v) =
     (if is_null then NULL_STRING else if v = False then ''false'' else ''true'')"
| "String lib (Varbinary p is_null v) = (if is_null then NULL_STRING else Sprintf_0x (elems v))"
| "String lib (Varchar p f is_null v) =
     (if is_null then NULL_STRING else string_of_bytes (elems v))"
| "String lib (Bit is_null v) =
     (if is_null then NULL_STRING else if v = 0 then ''0'' else ''1'')"
| "String lib (Tinyint is_null v) = (if is_null then NULL_STRING else FormatInt (uint v))"
| "String lib (Smallint is_null v) = (if is_null then NULL_STRING else FormatInt (sint v))"
| "String lib (Int' is_null v) = (if is_null then NULL_STRING else FormatInt (sint v))"
| "String lib (Bigint is_null v) = (if is_null then NULL_STRING else FormatInt (sint v))"
| "String lib (Money p sc is_null v) =
     (if is_null then NULL_STRING else string_of_bytes (elems v))"
| "String lib (Numeric p sc is_null v) =
     (if is_null then NULL_STRING else string_of_bytes (elems v))"
| "String lib (Float is_null v) = (if is_null then NULL_STRING else FormatFloat lib v)"
| "String lib (Date is_null v) = (if is_null then NULL_STRING else Format lib ''2006-01-02'' v)"
| "String lib (Time is_null v) =
     (if is_null then NULL_STRING
      else if nanosecond v = 0 then Format lib ''15:04:05'' v
      else Format lib ''15:04:05.000000000'' v)"
| "String lib (Datetime is_null v) =
     (if is_null then NULL_STRING
      else if nanosecond v = 0 then Format lib ''2006-01-02 15:04:05'' v
      else Format lib ''2006-01-02 15:04:05.000000000'' v)"

definition ColCount :: "Batch \<Rightarrow> nat" where
  "ColCount b = (case record' b of None \<Rightarrow> 0 | Some row \<Rightarrow> length row)"

text \<open>\<open>b.record[i]\<close>: an index outside the row is a run-time panic.\<close>

definition record_at :: "Batch \<Rightarrow> nat \<Rightarrow> IField res" where
  "record_at b i =
     (case record' b of
        None \<Rightarrow> Panic ''index out of range''
      | Some row \<Rightarrow> if i < length row then Ok (row ! i) else Panic ''index out of range'')"

definition with_field :: "Batch \<Rightarrow> nat \<Rightarrow> (IField \<Rightarrow> 'a res) \<Rightarrow> 'a res" where
  "with_field b i k =
     (case record_at b i of Ok field \<Rightarrow> k field | Err e \<Rightarrow> Err e | Panic p \<Rightarrow> Panic p)"

text \<open>
  The getters return the value and \<open>isnull\<close>.  A \<open>float64\<close> differs from zero unless
  its bit pattern is that of \<open>+0\<close> or \<open>-0\<close>.
\<close>

definition ColBool :: "Batch \<Rightarrow> nat \<Rightarrow> (bool \<times> bool) res" where
  "ColBool b i =
     with_field b i (\<lambda>field.
       if IsNull field then Ok (False, True)
       else (case field of
           Varchar p f n v \<Rightarrow>
             (case ParseBool (string_of_bytes (elems v)) of
                None \<Rightarrow> Ok (False, False)
              | Some res \<Rightarrow> Ok (res, False))
         | Bit n v \<Rightarrow> Ok (v \<noteq> 0, False)
         | Tinyint n v \<Rightarrow> Ok (v \<noteq> 0, False)
         | Smallint n v \<Rightarrow> Ok (v \<noteq> 0, False)
         | Int' n v \<Rightarrow> Ok (v \<noteq> 0, False)
         | Bigint n v \<Rightarrow> Ok (v \<noteq> 0, False)
         | Float n v \<Rightarrow> Ok (v AND 0x7FFFFFFFFFFFFFFF \<noteq> 0, False)
         | _ \<Rightarrow> Panic ''record field cannot be converted to bool.''))"

definition ColBinary :: "Batch \<Rightarrow> nat \<Rightarrow> (bytes \<times> bool) res" where
  "ColBinary b i =
     with_field b i (\<lambda>field.
       if IsNull field then Ok ([], True)
       else (case field of
           Varbinary p n v \<Rightarrow> Ok (elems v, False)
         | _ \<Rightarrow> Panic ''record field is not a binary datatype.''))"

definition ColString :: "GoLib \<Rightarrow> Batch \<Rightarrow> nat \<Rightarrow> (string \<times> bool) res" where
  "ColString lib b i =
     with_field b i (\<lambda>field.
       if IsNull field then Ok ([], True)
       else (case field of
           Varchar p f n v \<Rightarrow> Ok (string_of_bytes (elems v), False)
         | Money p sc n v \<Rightarrow> Ok (string_of_bytes (elems v), False)
         | Numeric p sc n v \<Rightarrow> Ok (string_of_bytes (elems v), False)
         | _ \<Rightarrow> Ok (String lib field, False)))"

definition ColInt64 :: "Batch \<Rightarrow> nat \<Rightarrow> (int64 \<times> bool) res" where
  "ColInt64 b i =
     with_field b i (\<lambda>field.
       if IsNull field then Ok (0, True)
       else (case field of
           Bit n v \<Rightarrow> Ok (ucast v, False)
         | Tinyint n v \<Rightarrow> Ok (ucast v, False)
         | Smallint n v \<Rightarrow> Ok (scast v, False)
         | Int' n v \<Rightarrow> Ok (scast v, False)
         | Bigint n v \<Rightarrow> Ok (v, False)
         | _ \<Rightarrow> Panic ''record field is not an integer datatype.''))"

text \<open>\<open>int\<close> and \<open>uint\<close> are 64 bits wide (a 64-bit platform).\<close>

definition ColInt :: "Batch \<Rightarrow> nat \<Rightarrow> (int64 \<times> bool) res" where
  "ColInt b i =
     (case ColInt64 b i of
        Ok (val64, isnull) \<Rightarrow> Ok (val64, isnull) | Err e \<Rightarrow> Err e | Panic p \<Rightarrow> Panic p)"

definition ColFloat64 :: "Batch \<Rightarrow> nat \<Rightarrow> (uint64 \<times> bool) res" where
  "ColFloat64 b i =
     with_field b i (\<lambda>field.
       if IsNull field then Ok (0, True)
       else (case field of
           Float n v \<Rightarrow> Ok (v, False)
         | _ \<Rightarrow> Panic ''record field is not a float datatype.''))"

definition ColDatetimeUTC :: "Batch \<Rightarrow> nat \<Rightarrow> (time_Time \<times> bool) res" where
  "ColDatetimeUTC b i =
     with_field b i (\<lambda>field.
       if IsNull field then Ok (time_zero, True)
       else (case field of
           Date n v \<Rightarrow> Ok (v, False)
         | Time n v \<Rightarrow> Ok (v, False)
         | Datetime n v \<Rightarrow> Ok (v, False)
         | _ \<Rightarrow> Panic ''record field is not a date, time or datetime datatype.''))"

definition LocalizeTime :: "GoLib \<Rightarrow> time_Time \<Rightarrow> time_Time" where
  "LocalizeTime lib t = Date_in_Local lib t"

definition ColDatetime :: "GoLib \<Rightarrow> Batch \<Rightarrow> nat \<Rightarrow> (time_Time \<times> bool) res" where
  "ColDatetime lib b i =
     with_field b i (\<lambda>field.
       if IsNull field then Ok (time_zero, True)
       else (case field of
           Time n v \<Rightarrow> Ok (v, False)
         | _ \<Rightarrow>
           (case ColDatetimeUTC b i of
              Ok (valUTC, isnull) \<Rightarrow>
                if isnull then Panic ''impossible: DATE or DATETIME is NULL.''
                else Ok (LocalizeTime lib valUTC, isnull)
            | Err e \<Rightarrow> Err e
            | Panic p \<Rightarrow> Panic p)))"

section \<open>Package drv: Scan\<close>

text \<open>
  A destination of \<open>Scan\<close> is a pointer; the model keeps the kind of the pointer and
  the value of the variable it points to.  The destinations are distinct, non-nil
  variables.  \<open>DUnsupported\<close> stands for an argument of any other type.
\<close>

datatype Dest =
    DBool bool | DBytes bytes | DString string
  | DInt8 byte | DInt16 uint16 | DInt32 uint32 | DInt64 int64 | DInt int64
  | DUint8 byte | DUint16 uint16 | DUint32 uint32 | DUint64 uint64 | DUint uint64
  | DFloat64 uint64 | DTime time_Time
  | DUnsupported

text \<open>
  One round of the loop over \<open>dest\<close>: the new value of the destination, or the error
  the round returns, or the panic of the getter.
\<close>

definition getter :: "('a \<times> bool) res \<Rightarrow> ('a \<Rightarrow> Dest res) \<Rightarrow> Dest res" where
  "getter g k = (case g of Ok (val, isnull) \<Rightarrow> k val | Err e \<Rightarrow> Err e | Panic p \<Rightarrow> Panic p)"

fun scan_dest :: "GoLib \<Rightarrow> Batch \<Rightarrow> nat \<Rightarrow> Dest \<Rightarrow> Dest res" where
  "scan_dest lib b i (DBool _) = getter (ColBool b i) (\<lambda>val. Ok (DBool val))"
| "scan_dest lib b i (DBytes _) = getter (ColBinary b i) (\<lambda>val. Ok (DBytes val))"
| "scan_dest lib b i (DString _) = getter (ColString lib b i) (\<lambda>val. Ok (DString val))"
| "scan_dest lib b i (DInt8 _) =
     getter (ColInt64 b i) (\<lambda>val.
       if sint val < - 128 \<or> sint val > 127 then Err (ErrScanOverflow i ''int8'')
       else Ok (DInt8 (ucast val)))"
| "scan_dest lib b i (DInt16 _) =
     getter (ColInt64 b i) (\<lambda>val.
       if sint val < - 32768 \<or> sint val > 32767 then Err (ErrScanOverflow i ''int16'')
       else Ok (DInt16 (ucast val)))"
| "scan_dest lib b i (DInt32 _) =
     getter (ColInt64 b i) (\<lambda>val.
       if sint val < - 2147483648 \<or> sint val > 2147483647
         then Err (ErrScanOverflow i ''int32'')
       else Ok (DInt32 (ucast val)))"
| "scan_dest lib b i (DInt64 _) = getter (ColInt64 b i) (\<lambda>val. Ok (DInt64 val))"
| "scan_dest lib b i (DInt _) = getter (ColInt b i) (\<lambda>val. Ok (DInt val))"
| "scan_dest lib b i (DUint8 _) =
     getter (ColInt64 b i) (\<lambda>val.
       if sint val < 0 \<or> sint val > 255 then Err (ErrScanOverflow i ''uint8'')
       else Ok (DUint8 (ucast val)))"
| "scan_dest lib b i (DUint16 _) =
     getter (ColInt64 b i) (\<lambda>val.
       if sint val < 0 \<or> sint val > 65535 then Err (ErrScanOverflow i ''uint16'')
       else Ok (DUint16 (ucast val)))"
| "scan_dest lib b i (DUint32 _) =
     getter (ColInt64 b i) (\<lambda>val.
       if sint val < 0 \<or> sint val > 4294967295 then Err (ErrScanOverflow i ''uint32'')
       else Ok (DUint32 (ucast val)))"
| "scan_dest lib b i (DUint64 _) =
     getter (ColInt64 b i) (\<lambda>val.
       if sint val < 0 then Err (ErrScanOverflow i ''uint64'') else Ok (DUint64 val))"
| "scan_dest lib b i (DUint _) =
     getter (ColInt64 b i) (\<lambda>val.
       if sint val < 0 then Err (ErrScanOverflow i ''uint64'') else Ok (DUint val))"
| "scan_dest lib b i (DFloat64 _) = getter (ColFloat64 b i) (\<lambda>val. Ok (DFloat64 val))"
| "scan_dest lib b i (DTime _) = getter (ColDatetime lib b i) (\<lambda>val. Ok (DTime val))"
| "scan_dest lib b i DUnsupported = Err ErrScanUnsupported"

text \<open>
  The loop \<open>for i, dt := range dest\<close>.  It returns the error \<open>Scan\<close> returns
  (\<open>None\<close> for nil) and the destinations as the loop leaves them.
\<close>

fun scan_loop :: "GoLib \<Rightarrow> Batch \<Rightarrow> nat \<Rightarrow> Dest list \<Rightarrow> error option res \<times> Dest list" where
  "scan_loop lib b i [] = (Ok None, [])"
| "scan_loop lib b i (dt # dest) =
     (case scan_dest lib b i dt of
        Ok dt' \<Rightarrow> (case scan_loop lib b (Suc i) dest of (r, dest') \<Rightarrow> (r, dt' # dest'))
      | Err e \<Rightarrow> (Ok (Some e), dt # dest)
      | Panic p \<Rightarrow> (Panic p, dt # dest))"

definition Scan :: "GoLib \<Rightarrow> Batch \<Rightarrow> Dest list \<Rightarrow> error option res \<times> Dest list" where
  "Scan lib b dest =
     (if err b \<noteq> None then (Ok (err b), dest)
      else if status b \<noteq> sTATUS_RECORD_AVAILABLE then (Ok (Some ErrScanNotAvailable), dest)
      else if length dest \<noteq> ColCount b then (Ok (Some (ErrScanCount (ColCount b))), dest)
      else scan_loop lib b 0 dest)"












text \<open>
  The batch that \<open>Query\<close> and \<open>Execute\<close> build before they drive the state machine:
  a zero \<open>Batch\<close> bound to the connection, the connection marked dirty, the text
  stored, the status \<open>sTATUS_BATCH_SENT\<close>.  (Sending the text is output and is not
  modelled.)
\<close>

definition sent_Batch :: "Connection \<Rightarrow> string \<Rightarrow> Batch" where
  "sent_Batch conn' text'' =
     \<lparr>conn = conn'\<lparr>isDirty := True\<rparr>, sql_text = text'', status = sTATUS_BATCH_SENT,
      recordsetCount = 0, colnameList = None, colnameMap = None, record' = None,
      recordCount = 0, execRecordCount = 0, err = None, rc = 0\<rparr>"

text \<open>A connection as \<open>NewConnection\<close> returns it, reading from the given input.\<close>

definition new_Connection :: "Reader \<Rightarrow> Connection" where
  "new_Connection br = \<lparr>session = new_Session br, isDirty = False\<rparr>"

text \<open>
  A library to run examples with: nothing is formatted, the local time zone is UTC and
  \<open>append\<close> allocates twice the length it needs.
\<close>

definition example_lib :: GoLib where
  "example_lib =
     \<lparr>FormatFloat = (\<lambda>v. []), Format = (\<lambda>layout t. []), Date_in_Local = (\<lambda>t. t),
      growslice = (\<lambda>l c n. 2 * n)\<rparr>"

text \<open>
  The error record on the wire, as the encoder of this package writes it: a map header,
  then for each pair the key as a string and the value as a string or as an \<open>int64\<close>.
  \<open>wire_string s\<close> is what \<open>AppendString\<close> appends for a string that is not too long.
  \<open>set_field\<close> names the field of the error record a pair belongs to.
\<close>

datatype field_value = StrVal string | IntVal int64

definition wire_string :: "string \<Rightarrow> bytes" where
  "wire_string s = AppendStringHeader [] (of_nat (length s)) @ bytes_of_string s"

fun wire_value :: "field_value \<Rightarrow> bytes" where
  "wire_value (StrVal s) = wire_string s"
| "wire_value (IntVal n) = AppendInt64 [] n"

definition wire_pair :: "string \<times> field_value \<Rightarrow> bytes" where
  "wire_pair kv = wire_string (fst kv) @ wire_value (snd kv)"

definition wire_error_map :: "(string \<times> field_value) list \<Rightarrow> bytes" where
  "wire_error_map kvs = AppendMapHeader [] (of_nat (length kvs)) @ concat (map wire_pair kvs)"

definition string_keys :: "string list" where
  "string_keys =
     [''src_file'', ''src_funcname'', ''src_backtrace'', ''category'', ''message'',
      ''severity'', ''text'']"

definition int_keys :: "string list" where
  "int_keys = [''src_line_no'', ''state'', ''line_no'', ''line_pos'']"

fun known_pair :: "string \<times> field_value \<Rightarrow> bool" where
  "known_pair (k, StrVal s) = (k \<in> set string_keys \<and> length s < 2 ^ 32)"
| "known_pair (k, IntVal n) = (k \<in> set int_keys)"

fun set_field :: "Error_info \<Rightarrow> string \<times> field_value \<Rightarrow> Error_info" where
  "set_field e (k, StrVal s) =
     (if k = ''src_file'' then e\<lparr>src_file := s\<rparr>
      else if k = ''src_funcname'' then e\<lparr>src_funcname := s\<rparr>
      else if k = ''src_backtrace'' then e\<lparr>src_backtrace := s\<rparr>
      else if k = ''category'' then e\<lparr>category := s\<rparr>
      else if k = ''message'' then e\<lparr>message := s\<rparr>
      else if k = ''severity'' then e\<lparr>severity := s\<rparr>
      else if k = ''text'' then e\<lparr>text' := s\<rparr>
      else e)"
| "set_field e (k, IntVal n) =
     (if k = ''src_line_no'' then e\<lparr>src_line_no := n\<rparr>
      else if k = ''state'' then e\<lparr>state := n\<rparr>
      else if k = ''line_no'' then e\<lparr>line_no := n\<rparr>
      else if k = ''line_pos'' then e\<lparr>line_pos := n\<rparr>
      else e)"

text \<open>
  A pair of the error record is well typed when its key is a known field name and its
  value is of the type of that field.
\<close>

fun typed_pair :: "string \<times> field_value \<Rightarrow> bool" where
  "typed_pair (k, StrVal s) = (k \<in> set string_keys)"
| "typed_pair (k, IntVal n) = (k \<in> set int_keys)"

text \<open>
  The pairs at the head of an input, in whatever form the decoder accepts them:
  \<open>reads_pairs kvs br\<close> is the input left when \<open>br\<close> begins with the pairs \<open>kvs\<close>, each
  key being read by \<open>ReadString\<close> and each value by \<open>ReadString\<close> (a string) or by
  \<open>ReadInt64\<close> (an integer), and \<open>None\<close> when \<open>br\<close> does not begin with them.
\<close>

fun reads_pairs :: "(string \<times> field_value) list \<Rightarrow> Reader \<Rightarrow> Reader option" where
  "reads_pairs [] br = Some br"
| "reads_pairs ((k, StrVal s) # kvs) br =
     (case ReadString br of
        (Ok k', br1) \<Rightarrow>
          (case ReadString br1 of
             (Ok s', br2) \<Rightarrow> if k' = k \<and> s' = s then reads_pairs kvs br2 else None
           | (Err e, br2) \<Rightarrow> None
           | (Panic p, br2) \<Rightarrow> None)
      | (Err e, br1) \<Rightarrow> None
      | (Panic p, br1) \<Rightarrow> None)"
| "reads_pairs ((k, IntVal n) # kvs) br =
     (case ReadString br of
        (Ok k', br1) \<Rightarrow>
          (case ReadInt64 br1 of
             (Ok n', br2) \<Rightarrow> if k' = k \<and> n' = n then reads_pairs kvs br2 else None
           | (Err e, br2) \<Rightarrow> None
           | (Panic p, br2) \<Rightarrow> None)
      | (Err e, br1) \<Rightarrow> None
      | (Panic p, br1) \<Rightarrow> None)"

text \<open>The reader a pass through the switch leaves behind.\<close>

fun result_mr :: "step_result \<Rightarrow> Reader" where
  "result_mr (Continue b) = get_mr b"
| "result_mr (Return r b) = get_mr b"
| "result_mr (Panicked p b) = get_mr b"

section \<open>Verification\<close>

subsection \<open>Termination of the loops\<close>

lemma rune_size_pos: "0 < rune_size p"
  by (simp add: rune_size_def Let_def)

termination RuneCount
  by (relation "measure length") (auto simp: rune_size_pos)

lemma rbind_len:
  assumes "\<And>br. length (snd (m br)) \<le> length br"
    and "\<And>x br. length (snd (f x br)) \<le> length br"
  shows "length (snd (rbind m f br)) \<le> length br"
proof (cases "m br")
  case (Pair r br')
  have le: "length br' \<le> length br" using assms(1)[of br] Pair by simp
  show ?thesis
  proof (cases r)
    case (Ok x)
    have "length (snd (f x br')) \<le> length br'" by (rule assms(2))
    with le Pair Ok show ?thesis by (simp add: rbind_def)
  next
    case (Err e) with le Pair show ?thesis by (simp add: rbind_def)
  next
    case (Panic p) with le Pair show ?thesis by (simp add: rbind_def)
  qed
qed

lemma rreturn_len: "length (snd (rreturn x br)) \<le> length br" by (simp add: rreturn_def)

lemma rfail_len: "length (snd (rfail e br)) \<le> length br" by (simp add: rfail_def)

lemma assert_len: "length (snd (assert c br)) \<le> length br" by (simp add: assert_def)

lemma if_len: "length (snd (a br)) \<le> length br \<Longrightarrow> length (snd (b br)) \<le> length br
   \<Longrightarrow> length (snd ((if c then a else b) br)) \<le> length br" by simp

lemma ReadNBytes_len: "length (snd (ReadNBytes n br)) \<le> length br" by (simp add: ReadNBytes_def)

lemma read_N_len: "length (snd (read_N n br)) \<le> length br" by (simp add: read_N_def ReadNBytes_len)

lemma peek_byte_len: "length (snd (peek_byte br)) \<le> length br" by (simp add: peek_byte_def split: list.split)

lemmas len_base = rbind_len rreturn_len rfail_len assert_len if_len ReadNBytes_len read_N_len peek_byte_len

lemma read_prefix_len: "length (snd (read_prefix br)) \<le> length br"
  unfolding read_prefix_def by (intro len_base)

lemma read_raw_uint8_len: "length (snd (read_raw_uint8 br)) \<le> length br"
  unfolding read_raw_uint8_def by (intro len_base)

lemma read_raw_uint16_len: "length (snd (read_raw_uint16 br)) \<le> length br"
  unfolding read_raw_uint16_def by (intro len_base)

lemma read_raw_uint32_len: "length (snd (read_raw_uint32 br)) \<le> length br"
  unfolding read_raw_uint32_def by (intro len_base)

lemma read_raw_uint64_len: "length (snd (read_raw_uint64 br)) \<le> length br"
  unfolding read_raw_uint64_def by (intro len_base)

lemmas len_raw = len_base read_prefix_len read_raw_uint8_len read_raw_uint16_len
  read_raw_uint32_len read_raw_uint64_len

lemma NextType_len: "length (snd (NextType br)) \<le> length br"
  unfolding NextType_def by (intro len_raw)

lemma ReadNil_len: "length (snd (ReadNil br)) \<le> length br"
  unfolding ReadNil_def by (intro len_raw)

lemma ReadBool_len: "length (snd (ReadBool br)) \<le> length br"
  unfolding ReadBool_def by (intro len_raw)

lemma ReadUint64_len: "length (snd (ReadUint64 br)) \<le> length br"
  unfolding ReadUint64_def by (intro len_raw)

lemma ReadInt64_len: "length (snd (ReadInt64 br)) \<le> length br"
  unfolding ReadInt64_def read_raw_int8_def read_raw_int16_def read_raw_int32_def
    read_raw_int64_def by (intro len_raw)

lemma ReadFloat64_len: "length (snd (ReadFloat64 br)) \<le> length br"
  unfolding ReadFloat64_def by (intro len_raw)

lemma ReadStringHeader_len: "length (snd (ReadStringHeader br)) \<le> length br"
  unfolding ReadStringHeader_def by (intro len_raw)

lemma ReadBytesHeader_len: "length (snd (ReadBytesHeader br)) \<le> length br"
  unfolding ReadBytesHeader_def by (intro len_raw)

lemma ReadArrayHeader_len: "length (snd (ReadArrayHeader br)) \<le> length br"
  unfolding ReadArrayHeader_def by (intro len_raw)

lemma ReadMapHeader_len: "length (snd (ReadMapHeader br)) \<le> length br"
  unfolding ReadMapHeader_def by (intro len_raw)

lemmas len_hdr = len_raw NextType_len ReadNil_len ReadBool_len ReadUint64_len ReadInt64_len
  ReadFloat64_len ReadStringHeader_len ReadBytesHeader_len ReadArrayHeader_len ReadMapHeader_len

lemma ReadUint8_len: "length (snd (ReadUint8 br)) \<le> length br"
  unfolding ReadUint8_def by (intro len_hdr)

lemma ReadUint16_len: "length (snd (ReadUint16 br)) \<le> length br"
  unfolding ReadUint16_def by (intro len_hdr)

lemma ReadUint32_len: "length (snd (ReadUint32 br)) \<le> length br"
  unfolding ReadUint32_def by (intro len_hdr)

lemma ReadInt16_len: "length (snd (ReadInt16 br)) \<le> length br"
  unfolding ReadInt16_def by (intro len_hdr)

lemma ReadInt32_len: "length (snd (ReadInt32 br)) \<le> length br"
  unfolding ReadInt32_def by (intro len_hdr)

lemma ReadStringAsBytes_len: "length (snd (ReadStringAsBytes br)) \<le> length br"
  unfolding ReadStringAsBytes_def by (intro len_hdr)

lemma ReadBytes_len: "length (snd (ReadBytes br)) \<le> length br"
  unfolding ReadBytes_def by (intro len_hdr)

lemma ReadString_len: "length (snd (ReadString br)) \<le> length br"
  unfolding ReadString_def by (intro len_hdr ReadStringAsBytes_len)

lemma discard_len: "length (snd (m br)) \<le> length br \<Longrightarrow> length (snd (discard m br)) \<le> length br"
  by (simp add: discard_def)

lemmas len_all = len_hdr ReadUint8_len ReadUint16_len ReadUint32_len ReadInt16_len ReadInt32_len
  ReadStringAsBytes_len ReadBytes_len ReadString_len discard_len

lemma colname_loop_len: "length (snd (colname_loop n acc br)) \<le> length br"
  by (induction n arbitrary: acc br) (auto intro!: len_all)

lemma Create_colname_list_len: "length (snd (Create_colname_list br)) \<le> length br"
  unfolding Create_colname_list_def by (intro len_all colname_loop_len)

lemma new_field_len: "length (snd (new_field br)) \<le> length br"
  unfolding new_field_def by (intro len_all)

lemma row_loop_len: "length (snd (row_loop n acc br)) \<le> length br"
  by (induction n arbitrary: acc br) (auto intro!: len_all new_field_len)

lemma Create_row_len: "length (snd (Create_row br)) \<le> length br"
  unfolding Create_row_def by (intro len_all row_loop_len)

lemma nullable_len:
  "(\<And>br. length (snd (m br)) \<le> length br) \<Longrightarrow> length (snd (nullable nf m br)) \<le> length br"
  unfolding nullable_def by (intro len_all)

lemma assign_len:
  assumes "\<And>br. length (snd (m br)) \<le> length br"
  shows "length (snd (assign f m br)) \<le> length br"
proof -
  obtain r br' where h: "m br = (r, br')" by (cases "m br")
  have "length br' \<le> length br" using assms[of br] h by simp
  then show ?thesis using h by (cases r) (simp_all add: assign_def)
qed

lemma read_bytes_value_len:
  assumes "\<And>br. length (snd (read br)) \<le> length br"
  shows "length (snd (read_bytes_value lib read read_dest mk n v fin br)) \<le> length br"
proof -
  obtain t br1 where h: "NextType br = (t, br1)" by (cases "NextType br")
  have le1: "length br1 \<le> length br" using NextType_len[of br] h by simp
  obtain r br2 where g: "read br1 = (r, br2)" by (cases "read br1")
  have le2: "length br2 \<le> length br" using assms[of br1] g le1 by simp
  have le3: "length (snd (ReadNil br1)) \<le> length br"
    using ReadNil_len[of br1] le1 by simp
  show ?thesis
    using h g le1 le2 le3 by (cases t; cases r) (simp_all add: read_bytes_value_def)
qed

lemma read_value_len: "length (snd (read_value lib f br)) \<le> length br"
  by (cases f)
    (simp_all, (intro assign_len read_bytes_value_len nullable_len len_all)+)

lemma fill_loop_len: "length (snd (fill_loop lib row br)) \<le> length br"
proof (induction row arbitrary: br)
  case Nil
  show ?case by simp
next
  case (Cons f row)
  obtain r f' br' where rv: "read_value lib f br = ((r, f'), br')"
    by (cases "read_value lib f br") auto
  have le: "length br' \<le> length br" using read_value_len[of lib f br] rv by simp
  show ?case
  proof (cases r)
    case (Ok u)
    obtain q row' br'' where fl: "fill_loop lib row br' = ((q, row'), br'')"
      by (cases "fill_loop lib row br'") auto
    have "length br'' \<le> length br'" using Cons.IH[of br'] fl by simp
    with le rv Ok fl show ?thesis by simp
  next
    case (Err e) with le rv show ?thesis by simp
  next
    case (Panic p) with le rv show ?thesis by simp
  qed
qed

lemma Fill_row_with_values_len:
  "length (snd (Fill_row_with_values lib row br)) \<le> length br"
proof -
  obtain r br' where h: "ReadArrayHeader br = (r, br')" by (cases "ReadArrayHeader br")
  have le: "length br' \<le> length br" using ReadArrayHeader_len[of br] h by simp
  show ?thesis
    using le h fill_loop_len[of lib row br']
    by (cases r) (auto simp: Fill_row_with_values_def)
qed

lemma Read_string_len: "length (snd (Read_string br)) \<le> length br"
  unfolding Read_string_def by (intro len_all)

lemma Read_int64_len: "length (snd (Read_int64 br)) \<le> length br"
  unfolding Read_int64_def by (intro len_all)

lemma Read_batch_end_RC_len: "length (snd (Read_batch_end_RC br)) \<le> length br"
  unfolding Read_batch_end_RC_def by (intro len_all)

lemma read_error_field_len: "length (snd (read_error_field key ei br)) \<le> length br"
  unfolding read_error_field_def by (intro len_all)

lemma error_info_loop_len: "length (snd (error_info_loop n ei br)) \<le> length br"
  by (induction n arbitrary: ei br) (auto intro!: len_all read_error_field_len)

lemma Read_Error_info_len: "length (snd (Read_Error_info br)) \<le> length br"
  unfolding Read_Error_info_def by (intro len_all error_info_loop_len)

lemma rbind_Ok_lt:
  assumes "rbind m f br = (Ok y, br'')"
    and "\<And>x br'. m br = (Ok x, br') \<Longrightarrow> length br' < length br"
    and "\<And>x br. length (snd (f x br)) \<le> length br"
  shows "length br'' < length br"
proof (cases "m br")
  case (Pair r br')
  show ?thesis
  proof (cases r)
    case (Ok x)
    have "length br' < length br" using assms(2) Pair Ok by simp
    moreover have "length (snd (f x br')) \<le> length br'" by (rule assms(3))
    ultimately show ?thesis using assms(1) Pair Ok by (simp add: rbind_def)
  next
    case (Err e) with assms(1) Pair show ?thesis by (simp add: rbind_def)
  next
    case (Panic p) with assms(1) Pair show ?thesis by (simp add: rbind_def)
  qed
qed

lemma read_prefix_Ok_lt: "read_prefix br = (Ok p, br') \<Longrightarrow> length br' < length br"
  by (auto simp: read_prefix_def read_N_def ReadNBytes_def rbind_def rreturn_def
      split: if_splits)

lemma ReadUint64_Ok_lt: "ReadUint64 br = (Ok v, br') \<Longrightarrow> length br' < length br"
  unfolding ReadUint64_def
  by (erule rbind_Ok_lt) (auto intro!: len_all dest: read_prefix_Ok_lt)

lemma ReadUint8_Ok_lt: "ReadUint8 br = (Ok v, br') \<Longrightarrow> length br' < length br"
  unfolding ReadUint8_def
  by (erule rbind_Ok_lt) (auto intro!: len_all dest: ReadUint64_Ok_lt)

lemma Read_response_type_Ok_lt:
  "Read_response_type br = (Ok v, br') \<Longrightarrow> length br' < length br"
  unfolding Read_response_type_def
  by (erule rbind_Ok_lt) (auto intro!: len_all dest: ReadUint8_Ok_lt)

lemma get_mr_set_mr [simp]: "get_mr (set_mr br b) = br"
  by (simp add: get_mr_def set_mr_def)

lemma get_mr_err [simp]: "get_mr (b\<lparr>err := e\<rparr>) = get_mr b"
  by (simp add: get_mr_def)

lemma on_session_len:
  assumes "\<And>br. length (snd (m br)) \<le> length br"
    and "length (get_mr b) \<le> n"
    and "\<And>x b'. length (get_mr b') \<le> n \<Longrightarrow> length (result_mr (k x b')) \<le> n"
  shows "length (result_mr (on_session m b k)) \<le> n"
proof (cases "m (get_mr b)")
  case (Pair r br)
  have le: "length br \<le> n" using assms(1)[of "get_mr b"] assms(2) Pair by simp
  show ?thesis
  proof (cases r)
    case (Ok x)
    have "length (result_mr (k x (set_mr br b))) \<le> n"
      by (rule assms(3)) (simp add: le)
    with Pair Ok show ?thesis by (simp add: on_session_def)
  next
    case (Err e) with le Pair show ?thesis by (simp add: on_session_def)
  next
    case (Panic p) with le Pair show ?thesis by (simp add: on_session_def)
  qed
qed

lemma on_fill_len:
  assumes "\<And>row' b'. get_mr (store row' b') = get_mr b'"
    and "length (get_mr b) \<le> n"
    and "\<And>b'. length (get_mr b') \<le> n \<Longrightarrow> length (result_mr (k b')) \<le> n"
  shows "length (result_mr (on_fill lib row b store k)) \<le> n"
proof -
  obtain r row' br where h: "Fill_row_with_values lib row (get_mr b) = ((r, row'), br)"
    by (cases "Fill_row_with_values lib row (get_mr b)") auto
  have le: "length br \<le> n"
    using Fill_row_with_values_len[of lib row "get_mr b"] h assms(2) by simp
  show ?thesis
  proof (cases r)
    case (Ok x)
    have "length (result_mr (k (store row' (set_mr br b)))) \<le> n"
      by (rule assms(3)) (simp add: le assms(1))
    with h Ok show ?thesis by (simp add: on_fill_def)
  next
    case (Err e) with le h show ?thesis by (simp add: on_fill_def assms(1))
  next
    case (Panic p) with le h show ?thesis by (simp add: on_fill_def assms(1))
  qed
qed

lemma if_result_len:
  "length (result_mr x) \<le> n \<Longrightarrow> length (result_mr y) \<le> n
   \<Longrightarrow> length (result_mr (if c then x else y)) \<le> n"
  by simp

lemma step_switch_len:
  "length (result_mr (step_switch lib option resp b)) \<le> length (get_mr b)"
  unfolding step_switch_def Let_def
  apply (intro if_result_len on_session_len on_fill_len Create_colname_list_len Create_row_len
      Read_int64_len Read_string_len Read_Error_info_len Read_batch_end_RC_len)
  apply (simp_all add: get_mr_def)
  done

termination step_loop
proof (relation "measure (\<lambda>(lib, option, b). length (get_mr b))", goal_cases)
  case 1
  show ?case by simp
next
  case (2 lib option b r br resp b')
  have "Read_response_type (get_mr b) = (Ok resp, br)" using 2 by simp
  then have "length br < length (get_mr b)" by (rule Read_response_type_Ok_lt)
  moreover have "length (get_mr b') \<le> length br"
    using step_switch_len[of lib option resp "set_mr br b"] 2 by simp
  ultimately show ?case by simp
qed

declare RuneCount.simps [simp del]

declare step_loop.simps [simp del]

subsection \<open>Reading what the encoder wrote\<close>

lemma rbind_Ok: "m br = (Ok x, br') \<Longrightarrow> rbind m f br = f x br'"
  by (simp add: rbind_def)

lemma read_N_append: "length xs = n \<Longrightarrow> read_N n (xs @ rest) = (Ok xs, rest)"
  by (simp add: read_N_def ReadNBytes_def)

lemma read_prefix_Cons: "read_prefix (b # rest) = (Ok b, rest)"
  by (simp add: read_prefix_def read_N_def ReadNBytes_def rbind_def rreturn_def)

lemma read_raw_uint8_Cons: "read_raw_uint8 (b # rest) = (Ok b, rest)"
  by (simp add: read_raw_uint8_def read_N_def ReadNBytes_def rbind_def rreturn_def)

lemma read_raw_uint16_Cons:
  "read_raw_uint16 (b1 # b0 # rest) = (Ok (push_bit 8 (ucast b1) OR ucast b0), rest)"
  by (simp add: read_raw_uint16_def read_N_def ReadNBytes_def rbind_def rreturn_def)

lemma read_raw_uint32_Cons:
  "read_raw_uint32 (b3 # b2 # b1 # b0 # rest) =
     (Ok (push_bit 24 (ucast b3) OR push_bit 16 (ucast b2) OR push_bit 8 (ucast b1) OR ucast b0), rest)"
  by (simp add: read_raw_uint32_def read_N_def ReadNBytes_def rbind_def rreturn_def)

lemma read_raw_uint64_Cons:
  "read_raw_uint64 (b7 # b6 # b5 # b4 # b3 # b2 # b1 # b0 # rest) =
     (Ok (push_bit 56 (ucast b7) OR push_bit 48 (ucast b6) OR push_bit 40 (ucast b5)
          OR push_bit 32 (ucast b4) OR push_bit 24 (ucast b3) OR push_bit 16 (ucast b2)
          OR push_bit 8 (ucast b1) OR ucast b0), rest)"
  by (simp add: read_raw_uint64_def read_N_def ReadNBytes_def rbind_def rreturn_def)

lemma rbind_read_prefix: "rbind read_prefix f (b # rest) = f b rest"
  by (simp add: rbind_def read_prefix_Cons)

lemma rbind_read_raw_uint8: "rbind read_raw_uint8 f (b # rest) = f b rest"
  by (simp add: rbind_def read_raw_uint8_Cons)

lemma rbind_read_raw_uint16: "rbind read_raw_uint16 f (b1 # b0 # rest) = f (push_bit 8 (ucast b1) OR ucast b0) rest"
  by (simp add: rbind_def read_raw_uint16_Cons)

lemma rbind_read_raw_uint32: "rbind read_raw_uint32 f (b3 # b2 # b1 # b0 # rest) =
    f (push_bit 24 (ucast b3) OR push_bit 16 (ucast b2) OR push_bit 8 (ucast b1) OR ucast b0) rest"
  by (simp add: rbind_def read_raw_uint32_Cons)

lemma rbind_read_raw_uint64: "rbind read_raw_uint64 f (b7 # b6 # b5 # b4 # b3 # b2 # b1 # b0 # rest) =
     f (push_bit 56 (ucast b7) OR push_bit 48 (ucast b6) OR push_bit 40 (ucast b5)
          OR push_bit 32 (ucast b4) OR push_bit 24 (ucast b3) OR push_bit 16 (ucast b2)
          OR push_bit 8 (ucast b1) OR ucast b0) rest"
  by (simp add: rbind_def read_raw_uint64_Cons)

lemma word_bit_bound: "(v::'a::len word) < 2^n \<Longrightarrow> bit v m \<Longrightarrow> m < n"
  using less_mask_eq[of v n] by (metis bit_and_iff bit_mask_iff)

lemma le_lt8: "(v :: 64 word) \<le> 0xFF \<Longrightarrow> v < 2^8"
  by (simp add: word_le_nat_alt word_less_nat_alt)

lemma le_lt16: "(v :: 64 word) \<le> 0xFFFF \<Longrightarrow> v < 2^16"
  by (simp add: word_le_nat_alt word_less_nat_alt)

lemma le_lt32: "(v :: 64 word) \<le> 0xFFFFFFFF \<Longrightarrow> v < 2^32"
  by (simp add: word_le_nat_alt word_less_nat_alt)

lemma byte_at:
  "bit (push_bit k (ucast (ucast (drop_bit k v :: 64 word) :: 8 word)) :: 'a::len word) n
     \<longleftrightarrow> k \<le> n \<and> n < k + 8 \<and> n < LENGTH('a) \<and> bit v n"
  by (auto simp: bit_simps)

lemma byte_at_0:
  "bit (ucast (ucast (v :: 64 word) :: 8 word) :: 'a::len word) n
     \<longleftrightarrow> n < 8 \<and> n < LENGTH('a) \<and> bit v n"
  by (auto simp: bit_simps)

lemma fixint_le: "v \<le> 127 \<Longrightarrow> (ucast (v :: 64 word) :: 8 word) \<le> 127"
  by (simp add: word_le_nat_alt unsigned_ucast_eq take_bit_nat_eq_self)

lemma join8: "v \<le> 0xFF \<Longrightarrow> ucast (ucast (v :: 64 word) :: 8 word) = v"
  by (rule bit_word_eqI) (auto simp: bit_simps dest: word_bit_bound[OF le_lt8])

lemma join16:
  assumes "v \<le> 0xFFFF"
  shows "ucast (push_bit 8 (ucast (ucast (drop_bit 8 v) :: 8 word)) OR ucast (ucast (v :: 64 word) :: 8 word) :: 16 word) = v"
proof (rule bit_word_eqI)
  fix n assume "n < LENGTH(64)"
  have b: "bit v n \<Longrightarrow> n < 16" using word_bit_bound[OF le_lt16[OF assms]] .
  show "bit (ucast (push_bit 8 (ucast (ucast (drop_bit 8 v) :: 8 word)) OR ucast (ucast (v :: 64 word) :: 8 word) :: 16 word) :: 64 word) n = bit v n"
    apply (simp only: bit_ucast_iff bit_or_iff byte_at byte_at_0)
    using b apply simp
    apply arith
    done
qed

lemma join32:
  assumes "v \<le> 0xFFFFFFFF"
  shows "ucast (push_bit 24 (ucast (ucast (drop_bit 24 v) :: 8 word)) OR push_bit 16 (ucast (ucast (drop_bit 16 v) :: 8 word)) OR push_bit 8 (ucast (ucast (drop_bit 8 v) :: 8 word)) OR ucast (ucast (v :: 64 word) :: 8 word) :: 32 word) = v"
proof (rule bit_word_eqI)
  fix n assume "n < LENGTH(64)"
  have b: "bit v n \<Longrightarrow> n < 32" using word_bit_bound[OF le_lt32[OF assms]] .
  show "bit (ucast (push_bit 24 (ucast (ucast (drop_bit 24 v) :: 8 word)) OR push_bit 16 (ucast (ucast (drop_bit 16 v) :: 8 word)) OR push_bit 8 (ucast (ucast (drop_bit 8 v) :: 8 word)) OR ucast (ucast (v :: 64 word) :: 8 word) :: 32 word) :: 64 word) n = bit v n"
    apply (simp only: bit_ucast_iff bit_or_iff byte_at byte_at_0)
    using b apply simp
    apply arith
    done
qed

lemma join64: "push_bit 56 (ucast (ucast (drop_bit 56 v) :: 8 word)) OR push_bit 48 (ucast (ucast (drop_bit 48 v) :: 8 word)) OR push_bit 40 (ucast (ucast (drop_bit 40 v) :: 8 word)) OR push_bit 32 (ucast (ucast (drop_bit 32 v) :: 8 word)) OR push_bit 24 (ucast (ucast (drop_bit 24 v) :: 8 word)) OR push_bit 16 (ucast (ucast (drop_bit 16 v) :: 8 word)) OR push_bit 8 (ucast (ucast (drop_bit 8 v) :: 8 word)) OR ucast (ucast (v :: 64 word) :: 8 word) = v"
  apply (rule bit_word_eqI)
  apply (simp only: bit_or_iff byte_at byte_at_0)
  apply simp
  apply arith
  done

lemma ReadUint64_AppendUint64: "ReadUint64 (AppendUint64 [] v @ rest) = (Ok v, rest)"
proof -
  consider "v \<le> 127" | "\<not> v \<le> 127" "v \<le> 0xFF" | "\<not> v \<le> 0xFF" "v \<le> 0xFFFF"
    | "\<not> v \<le> 0xFFFF" "v \<le> 0xFFFFFFFF" | "\<not> v \<le> 0xFFFFFFFF"
    by blast
  then show ?thesis
  proof cases
    case 1
    then have "v \<le> 0xFF" by (simp add: word_le_nat_alt)
    with 1 show ?thesis
      by (simp add: AppendUint64_def ReadUint64_def rbind_read_prefix fixint_le join8 rreturn_def)
  next
    case 2
    then show ?thesis
      by (simp add: AppendUint64_def ReadUint64_def rbind_read_prefix
          rbind_read_raw_uint8 join8 rreturn_def msgp_const)
  next
    case 3
    then have "\<not> v \<le> 127" by (simp add: word_le_nat_alt)
    with 3 show ?thesis
      by (simp add: AppendUint64_def ReadUint64_def rbind_read_prefix
          rbind_read_raw_uint16 join16 rreturn_def msgp_const)
  next
    case 4
    then have "\<not> v \<le> 127" "\<not> v \<le> 0xFF" by (simp_all add: word_le_nat_alt)
    with 4 show ?thesis
      by (simp add: AppendUint64_def ReadUint64_def rbind_read_prefix
          rbind_read_raw_uint32 join32 rreturn_def msgp_const)
  next
    case 5
    then have "\<not> v \<le> 127" "\<not> v \<le> 0xFF" "\<not> v \<le> 0xFFFF" by (simp_all add: word_le_nat_alt)
    with 5 show ?thesis
      by (simp add: AppendUint64_def ReadUint64_def rbind_read_prefix
          rbind_read_raw_uint64 join64 rreturn_def msgp_const)
  qed
qed

lemma AppendUint64_length:
  "length (AppendUint64 dest v) = length dest +
     (if v \<le> 127 then 1 else if v \<le> 255 then 2 else if v \<le> 65535 then 3
      else if v \<le> 4294967295 then 5 else 9)"
  by (simp add: AppendUint64_def)

lemma AppendUint64_dest: "AppendUint64 dest v = dest @ AppendUint64 [] v"
  by (simp add: AppendUint64_def)

lemma ReadUint64_fixint: "p \<le> 127 \<Longrightarrow> ReadUint64 (p # rest) = (Ok (ucast p), rest)"
  by (simp add: ReadUint64_def rbind_read_prefix rreturn_def)

lemma ucast_fixint_le: "p \<le> 127 \<Longrightarrow> \<not> 255 < (ucast (p :: byte) :: uint64)"
  by (simp add: word_le_nat_alt word_less_nat_alt unsigned_ucast_eq take_bit_nat_eq_self)

lemma ucast_ucast_byte: "(ucast (ucast (p :: byte) :: uint64) :: byte) = p"
  by (rule bit_word_eqI) (auto simp: bit_simps)

lemma ReadUint8_fixint: "p \<le> 127 \<Longrightarrow> ReadUint8 (p # rest) = (Ok p, rest)"
  by (simp add: ReadUint8_def rbind_def ReadUint64_fixint ucast_fixint_le ucast_ucast_byte
      rreturn_def)

lemma ReadInt64_fixint: "p \<le> 127 \<Longrightarrow> ReadInt64 (p # rest) = (Ok (ucast p), rest)"
  by (simp add: ReadInt64_def rbind_read_prefix rreturn_def)

lemma unat_ucast_byte32: "unat (ucast (w :: byte) :: uint32) = unat w"
proof -
  have "unat w < 2 ^ 8" using unsigned_less[of w, where 'a=nat] by simp
  then have "unat w < 2 ^ 32" by simp
  then show ?thesis by (simp add: unsigned_ucast_eq take_bit_nat_eq_self)
qed

lemma unat_ucast_16_32: "unat (ucast (w :: uint16) :: uint32) = unat w"
proof -
  have "unat w < 2 ^ 16" using unsigned_less[of w, where 'a=nat] by simp
  then have "unat w < 2 ^ 32" by simp
  then show ?thesis by (simp add: unsigned_ucast_eq take_bit_nat_eq_self)
qed

lemma ReadStringHeader_fixstr:
  "prefix AND PREFIX_FIXSTR_MASK = M_FIXSTR_BASE \<Longrightarrow>
   ReadStringHeader (prefix # rest) = (Ok (ucast (first_bits_5 prefix)), rest)"
  by (simp add: ReadStringHeader_def rbind_read_prefix rreturn_def)

lemma ReadNBytes_append: "ReadNBytes (length s) (s @ rest) = (Ok s, rest)"
  by (simp add: ReadNBytes_def)

lemma ReadStringAsBytes_fixstr:
  "prefix AND PREFIX_FIXSTR_MASK = M_FIXSTR_BASE \<Longrightarrow> unat (first_bits_5 prefix) = length s \<Longrightarrow>
   ReadStringAsBytes (prefix # s @ rest) = (Ok s, rest)"
  by (simp add: ReadStringAsBytes_def ReadStringHeader_fixstr rbind_def
      unat_ucast_byte32 ReadNBytes_append)

lemma byte_at_gen:
  "bit (push_bit k (ucast (ucast (drop_bit k (v :: 'b::len word)) :: 8 word)) :: 'a::len word) n
     \<longleftrightarrow> k \<le> n \<and> n < k + 8 \<and> n < LENGTH('a) \<and> bit v n"
  by (auto simp: bit_simps)

lemma byte_at_gen_0:
  "bit (ucast (ucast (v :: 'b::len word) :: 8 word) :: 'a::len word) n
     \<longleftrightarrow> n < 8 \<and> n < LENGTH('a) \<and> bit v n"
  by (auto simp: bit_simps)

lemma trunc16:
  "push_bit 8 (ucast (ucast (drop_bit 8 v) :: byte)) OR ucast (ucast v :: byte)
     = (ucast (v :: 'b::len word) :: 16 word)"
  apply (rule bit_word_eqI)
  apply (simp only: bit_or_iff byte_at_gen byte_at_gen_0 bit_ucast_iff)
  apply simp
  apply arith
  done

lemma trunc32:
  "push_bit 24 (ucast (ucast (drop_bit 24 v) :: byte)) OR push_bit 16 (ucast (ucast (drop_bit 16 v) :: byte))
     OR push_bit 8 (ucast (ucast (drop_bit 8 v) :: byte)) OR ucast (ucast v :: byte)
     = (ucast (v :: 'b::len word) :: 32 word)"
  apply (rule bit_word_eqI)
  apply (simp only: bit_or_iff byte_at_gen byte_at_gen_0 bit_ucast_iff)
  apply simp
  apply arith
  done

lemma mask5: "(0x1f :: byte) = mask 5" by (simp add: mask_eq_exp_minus_1)

lemma mask4: "(0x0f :: byte) = mask 4" by (simp add: mask_eq_exp_minus_1)

lemma and_high_zero:
  assumes "(x :: 'a::len word) AND mask n = x"
  shows "x AND NOT (mask n) = 0"
proof -
  have "x AND NOT (mask n) = (x AND mask n) AND NOT (mask n)" using assms by simp
  also have "\<dots> = x AND (mask n AND NOT (mask n))" by (simp only: and.assoc)
  also have "\<dots> = 0" by simp
  finally show ?thesis .
qed

lemma fix5:
  assumes "(x :: byte) < 32"
  shows "(0xa0 OR x) AND 0xe0 = 0xa0" and "(0xa0 OR x) AND 0x1f = x"
proof -
  have m: "x AND mask 5 = x" using less_mask_eq[of x 5] assms by simp
  have e0: "(0xe0 :: byte) = NOT (mask 5)" by (simp add: mask_eq_exp_minus_1)
  have z: "x AND 0xe0 = 0" unfolding e0 using m by (rule and_high_zero)
  have m': "x AND 0x1f = x" using m by (simp add: mask_eq_exp_minus_1)
  show "(0xa0 OR x) AND 0xe0 = 0xa0" by (simp add: bit.conj_disj_distrib2 z)
  show "(0xa0 OR x) AND 0x1f = x" by (simp add: bit.conj_disj_distrib2 m')
qed

lemma fix4:
  assumes "(x :: byte) < 16"
  shows "(0x80 OR x) AND 0xf0 = 0x80" and "(0x80 OR x) AND 0x0f = x"
proof -
  have m: "x AND mask 4 = x" using less_mask_eq[of x 4] assms by simp
  have e0: "(0xf0 :: byte) = NOT (mask 4)" by (simp add: mask_eq_exp_minus_1)
  have z: "x AND 0xf0 = 0" unfolding e0 using m by (rule and_high_zero)
  have m': "x AND 0x0f = x" using m by (simp add: mask_eq_exp_minus_1)
  show "(0x80 OR x) AND 0xf0 = 0x80" by (simp add: bit.conj_disj_distrib2 z)
  show "(0x80 OR x) AND 0x0f = x" by (simp add: bit.conj_disj_distrib2 m')
qed

lemma sint_ucast_in_range:
  fixes v :: "64 word"
  assumes "- (2 ^ (LENGTH('a::len) - 1)) \<le> sint v" "sint v < 2 ^ (LENGTH('a) - 1)"
    and "LENGTH('a) \<le> 64"
  shows "sint (ucast v :: 'a word) = sint v"
proof -
  have "sint (ucast v :: 'a word) = signed_take_bit (LENGTH('a) - Suc 0) (uint v)"
    by (simp add: signed_ucast_eq)
  also have "\<dots> = signed_take_bit (LENGTH('a) - Suc 0) (signed_take_bit (LENGTH(64) - Suc 0) (uint v))"
  proof -
    have "LENGTH('a) - Suc 0 \<le> 63" using assms(3) by simp
    then show ?thesis by (simp add: min_def)
  qed
  also have "signed_take_bit (LENGTH(64) - Suc 0) (uint v) = sint v"
    by (simp add: sint_uint)
  also have "signed_take_bit (LENGTH('a) - Suc 0) (sint v) = sint v"
    using assms(1,2) by (intro signed_take_bit_int_eq_self) simp_all
  finally show ?thesis .
qed

lemma scast_ucast_id:
  fixes v :: "64 word"
  assumes "- (2 ^ (LENGTH('a::len) - 1)) \<le> sint v" "sint v < 2 ^ (LENGTH('a) - 1)"
    and "LENGTH('a) \<le> 64"
  shows "scast (ucast v :: 'a word) = v"
proof (rule signed_word_eqI)
  have "sint (scast (ucast v :: 'a word) :: 64 word) =
      signed_take_bit (LENGTH(64) - Suc 0) (sint (ucast v :: 'a word))"
    by (simp add: signed_scast_eq)
  also have "\<dots> = signed_take_bit (LENGTH(64) - Suc 0) (sint v)"
    by (simp add: sint_ucast_in_range[OF assms])
  also have "\<dots> = sint v"
    by (intro signed_take_bit_int_eq_self) (use sint_ge[of v] sint_lt[of v] in simp_all)
  finally show "sint (scast (ucast v :: 'a word) :: 64 word) = sint v" .
qed

lemma ucast_signed_drop_bit:
  "k \<le> 56 \<Longrightarrow> (ucast (signed_drop_bit k (v :: 64 word)) :: 8 word) = ucast (drop_bit k v)"
  by (rule bit_word_eqI) (auto simp: bit_simps)

lemma sint_eq_uint_minus:
  "sint (v :: 'a::len word) = uint v - 2 ^ LENGTH('a) * of_bool (bit (uint v) (LENGTH('a) - Suc 0))"
proof -
  have "sint v = signed_take_bit (LENGTH('a) - Suc 0) (uint v)" by (rule sint_uint)
  also have "\<dots> = take_bit (Suc (LENGTH('a) - Suc 0)) (uint v)
      - 2 ^ Suc (LENGTH('a) - Suc 0) * of_bool (bit (uint v) (LENGTH('a) - Suc 0))"
    by (rule signed_take_bit_eq_take_bit_minus)
  also have "Suc (LENGTH('a) - Suc 0) = LENGTH('a)" by simp
  also have "take_bit LENGTH('a) (uint v) = uint v"
    by (simp add: take_bit_int_eq_self)
  finally show ?thesis .
qed

lemma sint_nonneg_uint:
  assumes "0 \<le> sint (v :: 'a::len word)"
  shows "uint v = sint v"
proof (cases "bit (uint v) (LENGTH('a) - Suc 0)")
  case True
  then have "sint v = uint v - 2 ^ LENGTH('a)" using sint_eq_uint_minus[of v] by simp
  then show ?thesis using assms uint_lt2p[of v] by simp
next
  case False
  then show ?thesis using sint_eq_uint_minus[of v] by simp
qed

lemma sint_neg_uint:
  assumes "sint (v :: 'a::len word) < 0"
  shows "uint v = sint v + 2 ^ LENGTH('a)"
proof (cases "bit (uint v) (LENGTH('a) - Suc 0)")
  case True
  then show ?thesis using sint_eq_uint_minus[of v] by simp
next
  case False
  then have "sint v = uint v" using sint_eq_uint_minus[of v] by simp
  then show ?thesis using assms by simp
qed

lemma nonneg_le127: "0 \<le> sint (v :: 64 word) \<Longrightarrow> sint v \<le> 127 \<Longrightarrow> v \<le> 127"
  by (simp add: sint_nonneg_uint[symmetric] word_le_def)

lemma le_lt_32: "(sz :: uint32) \<le> 31 \<Longrightarrow> (ucast sz :: byte) < 32"
  by (simp add: word_le_nat_alt word_less_nat_alt unsigned_ucast_eq take_bit_nat_eq_self)

lemma le_lt_16: "(sz :: uint32) \<le> 15 \<Longrightarrow> (ucast sz :: byte) < 16"
  by (simp add: word_le_nat_alt word_less_nat_alt unsigned_ucast_eq take_bit_nat_eq_self)

lemma le32_lt8: "(v :: uint32) \<le> 0xFF \<Longrightarrow> v < 2^8"
  by (simp add: word_le_nat_alt word_less_nat_alt)

lemma le32_lt16: "(v :: uint32) \<le> 0xFFFF \<Longrightarrow> v < 2^16"
  by (simp add: word_le_nat_alt word_less_nat_alt)

lemma back8: "(sz :: uint32) \<le> 0xFF \<Longrightarrow> ucast (ucast sz :: byte) = sz"
  by (rule bit_word_eqI) (auto simp: bit_simps dest: word_bit_bound[OF le32_lt8])

lemma back16: "(sz :: uint32) \<le> 0xFFFF \<Longrightarrow> ucast (ucast sz :: uint16) = sz"
  by (rule bit_word_eqI) (auto simp: bit_simps dest: word_bit_bound[OF le32_lt16])

lemma ucast_32_32: "(ucast (sz :: uint32) :: uint32) = sz"
  by simp

lemma ReadStringHeader_AppendStringHeader:
  "ReadStringHeader (AppendStringHeader [] sz @ rest) = (Ok sz, rest)"
proof -
  consider "sz \<le> 31" | "\<not> sz \<le> 31" "sz \<le> 0xFF" | "\<not> sz \<le> 0xFF" "sz \<le> 0xFFFF"
    | "\<not> sz \<le> 0xFFFF"
    by blast
  then show ?thesis
  proof cases
    case 1
    have "sz \<le> 0xFF" using 1 by (simp add: word_le_nat_alt)
    then show ?thesis
      using 1 fix5[OF le_lt_32[OF 1]]
      by (simp add: AppendStringHeader_def ReadStringHeader_def rbind_read_prefix rreturn_def
          msgp_const first_bits_5_def back8)
  next
    case 2
    then show ?thesis
      by (simp add: AppendStringHeader_def ReadStringHeader_def rbind_read_prefix
          rbind_read_raw_uint8 rreturn_def msgp_const back8)
  next
    case 3
    then have "\<not> sz \<le> 31" by (simp add: word_le_nat_alt)
    with 3 show ?thesis
      by (simp add: AppendStringHeader_def ReadStringHeader_def rbind_read_prefix
          rbind_read_raw_uint16 rreturn_def msgp_const trunc16 back16)
  next
    case 4
    then have "\<not> sz \<le> 31" "\<not> sz \<le> 0xFF" by (simp_all add: word_le_nat_alt)
    with 4 show ?thesis
      by (simp add: AppendStringHeader_def ReadStringHeader_def rbind_read_prefix
          rbind_read_raw_uint32 rreturn_def msgp_const trunc32)
  qed
qed

lemma ReadMapHeader_AppendMapHeader:
  "ReadMapHeader (AppendMapHeader [] sz @ rest) = (Ok sz, rest)"
proof -
  consider "sz \<le> 15" | "\<not> sz \<le> 15" "sz \<le> 0xFFFF" | "\<not> sz \<le> 0xFFFF"
    by blast
  then show ?thesis
  proof cases
    case 1
    have "sz \<le> 0xFF" using 1 by (simp add: word_le_nat_alt)
    then show ?thesis
      using 1 fix4[OF le_lt_16[OF 1]]
      by (simp add: AppendMapHeader_def ReadMapHeader_def rbind_read_prefix rreturn_def
          msgp_const first_bits_4_def back8)
  next
    case 2
    then show ?thesis
      by (simp add: AppendMapHeader_def ReadMapHeader_def rbind_read_prefix
          rbind_read_raw_uint16 rreturn_def msgp_const trunc16 back16)
  next
    case 3
    then have "\<not> sz \<le> 15" by (simp add: word_le_nat_alt)
    with 3 show ?thesis
      by (simp add: AppendMapHeader_def ReadMapHeader_def rbind_read_prefix
          rbind_read_raw_uint32 rreturn_def msgp_const trunc32)
  qed
qed

lemma ReadInt64_negfix:
  "\<not> p \<le> 127 \<Longrightarrow> 0xe0 \<le> p \<Longrightarrow> ReadInt64 (p # rest) = (Ok (scast p), rest)"
  by (simp add: ReadInt64_def rbind_read_prefix rreturn_def msgp_const)

lemma ReadInt64_INT8: "ReadInt64 (M_INT8 # b # rest) = (Ok (scast b), rest)"
  by (simp add: ReadInt64_def rbind_read_prefix read_raw_int8_def rbind_read_raw_uint8
      rreturn_def msgp_const)

lemma ReadInt64_INT16:
  "ReadInt64 (M_INT16 # b1 # b0 # rest) =
     (Ok (scast (push_bit 8 (ucast b1) OR ucast b0 :: uint16)), rest)"
  by (simp add: ReadInt64_def rbind_read_prefix read_raw_int16_def rbind_read_raw_uint16
      rreturn_def msgp_const)

lemma ReadInt64_INT32:
  "ReadInt64 (M_INT32 # b3 # b2 # b1 # b0 # rest) =
     (Ok (scast (push_bit 24 (ucast b3) OR push_bit 16 (ucast b2) OR push_bit 8 (ucast b1)
                 OR ucast b0 :: uint32)), rest)"
  by (simp add: ReadInt64_def rbind_read_prefix read_raw_int32_def rbind_read_raw_uint32
      rreturn_def msgp_const)

lemma ReadInt64_INT64:
  "ReadInt64 (M_INT64 # b7 # b6 # b5 # b4 # b3 # b2 # b1 # b0 # rest) =
     (Ok (push_bit 56 (ucast b7) OR push_bit 48 (ucast b6) OR push_bit 40 (ucast b5)
          OR push_bit 32 (ucast b4) OR push_bit 24 (ucast b3) OR push_bit 16 (ucast b2)
          OR push_bit 8 (ucast b1) OR ucast b0), rest)"
  by (simp add: ReadInt64_def rbind_read_prefix read_raw_int64_def rbind_read_raw_uint64
      rreturn_def msgp_const)

lemma scast8: "- 128 \<le> sint (v :: int64) \<Longrightarrow> sint v \<le> 127 \<Longrightarrow> scast (ucast v :: byte) = v"
  by (rule scast_ucast_id) simp_all

lemma scast16:
  "- 32768 \<le> sint (v :: int64) \<Longrightarrow> sint v \<le> 32767 \<Longrightarrow> scast (ucast v :: uint16) = v"
  by (rule scast_ucast_id) simp_all

lemma scast32:
  "- 2147483648 \<le> sint (v :: int64) \<Longrightarrow> sint v \<le> 2147483647
   \<Longrightarrow> scast (ucast v :: uint32) = v"
  by (rule scast_ucast_id) simp_all

lemma negfix_byte:
  assumes "- 32 \<le> sint (v :: int64)" and "sint v < 0"
  shows "\<not> (ucast v :: byte) \<le> 127" and "0xe0 \<le> (ucast v :: byte)"
proof -
  have s: "sint (ucast v :: byte) = sint v"
    using assms by (intro sint_ucast_in_range) simp_all
  then have "uint (ucast v :: byte) = sint v + 256"
    using sint_neg_uint[of "ucast v :: byte"] assms(2) by simp
  then have u: "224 \<le> uint (ucast v :: byte)" using assms(1) by simp
  show "\<not> (ucast v :: byte) \<le> 127" using u by (simp add: word_le_def)
  show "0xe0 \<le> (ucast v :: byte)" using u by (simp add: word_le_def)
qed

lemma ReadInt64_AppendInt64: "ReadInt64 (AppendInt64 [] v @ rest) = (Ok v, rest)"
proof -
  consider
      (a) "0 \<le> sint v" "sint v \<le> 127"
    | (b) "0 \<le> sint v" "\<not> sint v \<le> 127" "sint v \<le> 32767"
    | (c) "0 \<le> sint v" "\<not> sint v \<le> 32767" "sint v \<le> 2147483647"
    | (d) "0 \<le> sint v" "\<not> sint v \<le> 2147483647"
    | (e) "\<not> 0 \<le> sint v" "- 32 \<le> sint v"
    | (f) "\<not> - 32 \<le> sint v" "- 128 \<le> sint v"
    | (g) "\<not> - 128 \<le> sint v" "- 32768 \<le> sint v"
    | (h) "\<not> - 32768 \<le> sint v" "- 2147483648 \<le> sint v"
    | (i) "\<not> - 2147483648 \<le> sint v"
    by linarith
  then show ?thesis
  proof cases
    case a
    have le: "v \<le> 127" using a by (rule nonneg_le127)
    then have "v \<le> 0xFF" by (simp add: word_le_nat_alt)
    then show ?thesis
      using a le by (simp add: AppendInt64_def ReadInt64_fixint fixint_le join8)
  next
    case b
    then show ?thesis
      by (simp add: AppendInt64_def ucast_signed_drop_bit ReadInt64_INT16 trunc16 scast16)
  next
    case c
    then show ?thesis
      by (simp add: AppendInt64_def ucast_signed_drop_bit ReadInt64_INT32 trunc32 scast32)
  next
    case d
    then show ?thesis
      by (simp add: AppendInt64_def ucast_signed_drop_bit ReadInt64_INT64 join64)
  next
    case e
    then show ?thesis
      using negfix_byte[of v]
      by (simp add: AppendInt64_def ReadInt64_negfix scast8)
  next
    case f
    then show ?thesis
      by (simp add: AppendInt64_def ReadInt64_INT8 scast8)
  next
    case g
    then show ?thesis
      by (simp add: AppendInt64_def ucast_signed_drop_bit ReadInt64_INT16 trunc16 scast16)
  next
    case h
    then show ?thesis
      by (simp add: AppendInt64_def ucast_signed_drop_bit ReadInt64_INT32 trunc32 scast32)
  next
    case i
    then show ?thesis
      by (simp add: AppendInt64_def ucast_signed_drop_bit ReadInt64_INT64 join64)
  qed
qed

subsection \<open>The codec\<close>

text \<open>
  Claim C8.  For every \<open>uint64\<close> value \<open>v\<close>, \<open>ReadUint64\<close> applied to the bytes that
  \<open>AppendUint64\<close> produced for \<open>v\<close> (followed by any further input) yields \<open>v\<close> again
  and leaves exactly the further input; and the encoding is 1 byte long for \<open>v \<le> 127\<close>,
  2 bytes for \<open>v \<le> 255\<close>, 3 bytes for \<open>v \<le> 65535\<close>, 5 bytes for \<open>v \<le> 2^32 - 1\<close> and
  9 bytes otherwise.
\<close>

theorem uint64_round_trip:
  "ReadUint64 (AppendUint64 [] v @ rest) = (Ok v, rest) \<and>
   length (AppendUint64 dest v) = length dest +
     (if v \<le> 127 then 1 else if v \<le> 255 then 2 else if v \<le> 65535 then 3
      else if v \<le> 4294967295 then 5 else 9)"
  by (simp only: ReadUint64_AppendUint64 AppendUint64_length)

theorem uint64_round_trip_witness:
  "ReadUint64 (AppendUint64 [] 65536 @ [7]) = (Ok 65536, [7]) \<and>
   length (AppendUint64 [] 65536) = 5"
  using uint64_round_trip [of 65536 "[7]" "[]"] by simp

text \<open>
  Claim C3, as stated, fails: the next byte \<open>0x05\<close> is a positive fixint, and
  \<open>NextType\<close> classifies it as \<open>IntType\<close>, not \<open>UintType\<close>.
\<close>

theorem NextType_fixint_counterexample:
  "NextType [0x05] = (Ok IntType, [0x05]) \<and> fst (NextType [0x05]) \<noteq> Ok UintType"
  by (simp add: NextType_def peek_byte_def rbind_def rreturn_def)

lemma NextType_Cons:
  "NextType (prefix # rest) =
     (Ok (if prefix \<le> 127 then IntType
       else if prefix \<ge> M_NEGATIVE_FIXINT_BASE then IntType
       else if prefix AND PREFIX_FIXSTR_MASK = M_FIXSTR_BASE then StrType
       else if prefix AND PREFIX_FIXARRAY_MASK = M_FIXARRAY_BASE then ArrayType
       else if prefix AND PREFIX_FIXMAP_MASK = M_FIXMAP_BASE then MapType
       else if prefix = M_NIL then NilType
       else if prefix = M_FALSE \<or> prefix = M_TRUE then BoolType
       else if prefix = M_BIN8 \<or> prefix = M_BIN16 \<or> prefix = M_BIN32 then BinType
       else if prefix = M_FLOAT32 then Float32Type
       else if prefix = M_FLOAT64 then Float64Type
       else if prefix = M_UINT8 \<or> prefix = M_UINT16 \<or> prefix = M_UINT32 \<or> prefix = M_UINT64
         then UintType
       else if prefix = M_INT8 \<or> prefix = M_INT16 \<or> prefix = M_INT32 \<or> prefix = M_INT64
         then IntType
       else if prefix = M_STR8 \<or> prefix = M_STR16 \<or> prefix = M_STR32 then StrType
       else if prefix = M_ARRAY16 \<or> prefix = M_ARRAY32 then ArrayType
       else if prefix = M_MAP16 \<or> prefix = M_MAP32 then MapType
       else InvalidType), prefix # rest)"
  by (simp add: NextType_def peek_byte_def rbind_def rreturn_def)

lemma NextType_keeps_input: "snd (NextType br) = br"
  by (cases br) (simp_all add: NextType_Cons, simp add: NextType_def peek_byte_def rbind_def)

text \<open>
  Claim C3, amended.  For every input whose next byte is a positive fixint prefix
  (\<open>0x00..0x7f\<close>), \<open>NextType\<close> returns \<open>IntType\<close>; for every input whose next byte is
  one of the uint8/uint16/uint32/uint64 prefixes it returns \<open>UintType\<close>; for every input
  whose next byte is a negative fixint prefix or one of the int8/int16/int32/int64
  prefixes it returns \<open>IntType\<close>.  \<open>NextType\<close> consumes no bytes, whatever the input.
\<close>

theorem NextType_classifies:
  "(prefix \<le> 127 \<longrightarrow> NextType (prefix # rest) = (Ok IntType, prefix # rest)) \<and>
   (prefix \<in> {M_UINT8, M_UINT16, M_UINT32, M_UINT64} \<longrightarrow>
      NextType (prefix # rest) = (Ok UintType, prefix # rest)) \<and>
   (prefix \<ge> M_NEGATIVE_FIXINT_BASE \<or> prefix \<in> {M_INT8, M_INT16, M_INT32, M_INT64} \<longrightarrow>
      NextType (prefix # rest) = (Ok IntType, prefix # rest)) \<and>
   snd (NextType br) = br"
proof (intro conjI impI)
  assume "prefix \<le> 127"
  then show "NextType (prefix # rest) = (Ok IntType, prefix # rest)"
    by (simp add: NextType_Cons)
next
  assume "prefix \<in> {M_UINT8, M_UINT16, M_UINT32, M_UINT64}"
  then show "NextType (prefix # rest) = (Ok UintType, prefix # rest)"
    by (auto simp: NextType_Cons msgp_const)
next
  assume "prefix \<ge> M_NEGATIVE_FIXINT_BASE \<or> prefix \<in> {M_INT8, M_INT16, M_INT32, M_INT64}"
  then show "NextType (prefix # rest) = (Ok IntType, prefix # rest)"
    by (auto simp: NextType_Cons msgp_const)
next
  show "snd (NextType br) = br" by (rule NextType_keeps_input)
qed

theorem NextType_classifies_witness:
  "NextType [0x7f, 1] = (Ok IntType, [0x7f, 1]) \<and>
   NextType [0xcd, 1, 2] = (Ok UintType, [0xcd, 1, 2]) \<and>
   NextType [0xe5] = (Ok IntType, [0xe5]) \<and>
   NextType [0xd2, 0, 0, 0, 1] = (Ok IntType, [0xd2, 0, 0, 0, 1])"
  using NextType_classifies [of "0x7f" "[1]" "[]"] NextType_classifies [of "0xcd" "[1, 2]" "[]"]
    NextType_classifies [of "0xe5" "[]" "[]"] NextType_classifies [of "0xd2" "[0, 0, 0, 1]" "[]"]
  by (simp add: msgp_const)

text \<open>
  Claim C4, as stated, fails: the non-negative \<open>int64\<close> value 128 is not encoded in two
  bytes with the uint8 prefix, but in three bytes with the int16 prefix.
\<close>

theorem AppendInt64_128_counterexample:
  "AppendInt64 [] 128 = [M_INT16, 0x00, 0x80] \<and> length (AppendInt64 [] 128) \<noteq> 2"
  by (simp add: AppendInt64_def)

text \<open>
  Claim C4, amended.  For every non-negative \<open>int64\<close> value the signed-integer encoder
  appends: for 0..127 the one-byte positive fixint; for 128..32767 three bytes starting
  with the int16 prefix; for values up to \<open>2^31 - 1\<close> five bytes starting with the int32
  prefix; for larger values nine bytes starting with the int64 prefix.
\<close>

theorem AppendInt64_nonneg:
  assumes "0 \<le> sint val"
  shows "length (AppendInt64 dest val) = length dest +
           (if sint val \<le> 127 then 1 else if sint val \<le> 32767 then 3
            else if sint val \<le> 2147483647 then 5 else 9) \<and>
         AppendInt64 dest val ! length dest =
           (if sint val \<le> 127 then ucast val else if sint val \<le> 32767 then M_INT16
            else if sint val \<le> 2147483647 then M_INT32 else M_INT64)"
  using assms by (simp add: AppendInt64_def nth_append)

theorem AppendInt64_nonneg_witness:
  "length (AppendInt64 [] 200) = 3 \<and> AppendInt64 [] 200 ! 0 = M_INT16 \<and>
   length (AppendInt64 [] 5) = 1 \<and> length (AppendInt64 [] 40000) = 5 \<and>
   length (AppendInt64 [] 4294967296) = 9"
  using AppendInt64_nonneg [of 200 "[]"] AppendInt64_nonneg [of 5 "[]"]
    AppendInt64_nonneg [of 40000 "[]"] AppendInt64_nonneg [of 4294967296 "[]"]
  by simp

subsection \<open>The error record\<close>

lemma unat_of_char: "unat (of_char c :: byte) = of_char c"
proof -
  have "(of_char c :: byte) = of_nat (of_char c)" by (simp add: of_nat_of_char)
  then have "unat (of_char c :: byte) = of_char c mod 256" by (simp only: unat_of_nat) simp
  then show ?thesis by simp
qed

lemma string_of_bytes_of_string: "string_of_bytes (bytes_of_string s) = s"
  by (simp add: bytes_of_string_def string_of_bytes_def comp_def unat_of_char)

lemma length_bytes_of_string: "length (bytes_of_string s) = length s"
  by (simp add: bytes_of_string_def)

text \<open>The encoder writes a string as \<open>wire_string\<close> has it.\<close>

lemma AppendString_wire:
  "length s < 2 ^ 32 \<Longrightarrow> AppendString [] (bytes_of_string s) = Ok (wire_string s)"
  by (simp add: AppendString_def wire_string_def bytes_of_string_def)

lemma unat_length32: "n < 2 ^ 32 \<Longrightarrow> unat (of_nat n :: uint32) = n"
  by (simp add: unat_of_nat)

lemma ReadStringAsBytes_wire:
  assumes "length s < 2 ^ 32"
  shows "ReadStringAsBytes (wire_string s @ rest) = (Ok (bytes_of_string s), rest)"
proof -
  have "ReadStringHeader (AppendStringHeader [] (of_nat (length s)) @ (bytes_of_string s @ rest))
      = (Ok (of_nat (length s)), bytes_of_string s @ rest)"
    by (rule ReadStringHeader_AppendStringHeader)
  moreover have "ReadNBytes (unat (of_nat (length s) :: uint32)) (bytes_of_string s @ rest)
      = (Ok (bytes_of_string s), rest)"
    using ReadNBytes_append[of "bytes_of_string s" rest] assms
    by (simp add: unat_length32 length_bytes_of_string)
  ultimately show ?thesis
    by (simp add: ReadStringAsBytes_def wire_string_def rbind_def)
qed

lemma ReadString_wire:
  "length s < 2 ^ 32 \<Longrightarrow> ReadString (wire_string s @ rest) = (Ok s, rest)"
  by (simp add: ReadString_def rbind_def ReadStringAsBytes_wire rreturn_def
      string_of_bytes_of_string)

lemma rbind_ReadString_wire:
  "length s < 2 ^ 32 \<Longrightarrow> rbind ReadString f (wire_string s @ rest) = f s rest"
  by (simp add: rbind_def ReadString_wire)

lemma rbind_ReadInt64_wire:
  "rbind ReadInt64 f (AppendInt64 [] n @ rest) = f n rest"
  by (simp add: rbind_def ReadInt64_AppendInt64)

lemma key_length: "k \<in> set string_keys \<or> k \<in> set int_keys \<Longrightarrow> length k < 2 ^ 32"
  unfolding string_keys_def int_keys_def by fastforce

lemma str_field:
  assumes "k \<in> set string_keys"
  shows "read_error_field k e = rbind ReadString (\<lambda>v. rreturn (set_field e (k, StrVal v)))"
proof -
  consider "k = ''src_file''" | "k = ''src_funcname''" | "k = ''src_backtrace''"
    | "k = ''category''" | "k = ''message''" | "k = ''severity''" | "k = ''text''"
    using assms unfolding string_keys_def by fastforce
  then show ?thesis
  proof cases
    case 1 then show ?thesis by (simp add: read_error_field_def)
  next
    case 2 then show ?thesis by (simp add: read_error_field_def)
  next
    case 3 then show ?thesis by (simp add: read_error_field_def)
  next
    case 4 then show ?thesis by (simp add: read_error_field_def)
  next
    case 5 then show ?thesis by (simp add: read_error_field_def)
  next
    case 6 then show ?thesis by (simp add: read_error_field_def)
  next
    case 7 then show ?thesis by (simp add: read_error_field_def)
  qed
qed

lemma int_field:
  assumes "k \<in> set int_keys"
  shows "read_error_field k e = rbind ReadInt64 (\<lambda>v. rreturn (set_field e (k, IntVal v)))"
proof -
  consider "k = ''src_line_no''" | "k = ''state''" | "k = ''line_no''" | "k = ''line_pos''"
    using assms unfolding int_keys_def by fastforce
  then show ?thesis
  proof cases
    case 1 then show ?thesis by (simp add: read_error_field_def)
  next
    case 2 then show ?thesis by (simp add: read_error_field_def)
  next
    case 3 then show ?thesis by (simp add: read_error_field_def)
  next
    case 4 then show ?thesis by (simp add: read_error_field_def)
  qed
qed

lemma read_error_field_known:
  assumes "known_pair (k, v)"
  shows "read_error_field k e (wire_value v @ rest) = (Ok (set_field e (k, v)), rest)"
proof (cases v)
  case (StrVal s)
  then have k: "k \<in> set string_keys" and l: "length s < 2 ^ 32" using assms by simp_all
  show ?thesis
    unfolding StrVal str_field[OF k] wire_value.simps rbind_ReadString_wire[OF l]
    by (simp add: rreturn_def)
next
  case (IntVal n)
  then have k: "k \<in> set int_keys" using assms by simp
  show ?thesis
    unfolding IntVal int_field[OF k] wire_value.simps rbind_ReadInt64_wire
    by (simp add: rreturn_def)
qed

lemma error_info_loop_known:
  assumes "list_all known_pair kvs"
  shows "error_info_loop (length kvs) e (concat (map wire_pair kvs) @ rest) =
           (Ok (foldl set_field e kvs), rest)"
  using assms
proof (induction kvs arbitrary: e)
  case Nil
  show ?case by (simp add: rreturn_def)
next
  case (Cons kv kvs)
  obtain k v where kv: "kv = (k, v)" by (cases kv)
  have kp: "known_pair (k, v)" and rest: "list_all known_pair kvs"
    using Cons.prems kv by simp_all
  have kl: "length k < 2 ^ 32"
    using kp key_length[of k] by (cases v) auto
  have "error_info_loop (length (kv # kvs)) e (concat (map wire_pair (kv # kvs)) @ rest) =
      rbind ReadString (\<lambda>key. rbind (read_error_field key e) (\<lambda>e'. error_info_loop (length kvs) e'))
        (wire_string k @ (wire_value v @ concat (map wire_pair kvs) @ rest))"
    by (simp add: kv wire_pair_def)
  also have "\<dots> = rbind (read_error_field k e) (\<lambda>e'. error_info_loop (length kvs) e')
        (wire_value v @ concat (map wire_pair kvs) @ rest)"
    by (rule rbind_ReadString_wire[OF kl])
  also have "\<dots> = error_info_loop (length kvs) (set_field e (k, v))
        (concat (map wire_pair kvs) @ rest)"
    by (simp add: rbind_def read_error_field_known[OF kp])
  also have "\<dots> = (Ok (foldl set_field (set_field e (k, v)) kvs), rest)"
    by (rule Cons.IH[OF rest])
  finally show ?case by (simp add: kv)
qed

lemma read_error_field_typed_str:
  assumes "k \<in> set string_keys" and "ReadString br = (Ok s, br')"
  shows "read_error_field k e br = (Ok (set_field e (k, StrVal s)), br')"
  using assms(2) by (simp add: str_field[OF assms(1)] rbind_def rreturn_def)

lemma read_error_field_typed_int:
  assumes "k \<in> set int_keys" and "ReadInt64 br = (Ok n, br')"
  shows "read_error_field k e br = (Ok (set_field e (k, IntVal n)), br')"
  using assms(2) by (simp add: int_field[OF assms(1)] rbind_def rreturn_def)

lemma error_info_loop_Suc:
  assumes "ReadString br = (Ok k, br1)" and "read_error_field k e br1 = (Ok e', br2)"
  shows "error_info_loop (Suc m) e br = error_info_loop m e' br2"
  using assms by (simp add: rbind_def)

lemma error_info_loop_pairs:
  assumes "list_all typed_pair kvs" and "reads_pairs kvs br = Some br'"
  shows "error_info_loop (length kvs) e br = (Ok (foldl set_field e kvs), br')"
  using assms
proof (induction kvs arbitrary: e br)
  case Nil
  then show ?case by (simp add: rreturn_def)
next
  case (Cons kv kvs)
  obtain k v where kv: "kv = (k, v)" by (cases kv)
  have rest: "list_all typed_pair kvs" using Cons.prems(1) by simp
  show ?case
  proof (cases v)
    case (StrVal s)
    have k: "k \<in> set string_keys" using Cons.prems(1) kv StrVal by simp
    obtain br1 br2 where r1: "ReadString br = (Ok k, br1)"
      and r2: "ReadString br1 = (Ok s, br2)" and r3: "reads_pairs kvs br2 = Some br'"
      using Cons.prems(2) unfolding kv StrVal
      by (auto split: prod.splits res.splits if_splits)
    have "error_info_loop (length (kv # kvs)) e br =
        error_info_loop (length kvs) (set_field e (k, StrVal s)) br2"
      using error_info_loop_Suc[OF r1 read_error_field_typed_str[OF k r2]] by simp
    also have "\<dots> = (Ok (foldl set_field (set_field e (k, StrVal s)) kvs), br')"
      by (rule Cons.IH[OF rest r3])
    finally show ?thesis by (simp add: kv StrVal)
  next
    case (IntVal n)
    have k: "k \<in> set int_keys" using Cons.prems(1) kv IntVal by simp
    obtain br1 br2 where r1: "ReadString br = (Ok k, br1)"
      and r2: "ReadInt64 br1 = (Ok n, br2)" and r3: "reads_pairs kvs br2 = Some br'"
      using Cons.prems(2) unfolding kv IntVal
      by (auto split: prod.splits res.splits if_splits)
    have "error_info_loop (length (kv # kvs)) e br =
        error_info_loop (length kvs) (set_field e (k, IntVal n)) br2"
      using error_info_loop_Suc[OF r1 read_error_field_typed_int[OF k r2]] by simp
    also have "\<dots> = (Ok (foldl set_field (set_field e (k, IntVal n)) kvs), br')"
      by (rule Cons.IH[OF rest r3])
    finally show ?thesis by (simp add: kv IntVal)
  qed
qed

lemma Read_Error_info_pairs:
  assumes "ReadMapHeader br = (Ok n, br0)" and "unat n = length kvs"
    and "list_all typed_pair kvs" and "reads_pairs kvs br0 = Some br'"
  shows "Read_Error_info br = (Ok (foldl set_field Error_info_zero kvs), br')"
  using assms(1,2) error_info_loop_pairs[OF assms(3,4)]
  by (simp add: Read_Error_info_def rbind_def)

text \<open>
  Claim C5, as stated, fails.  The map \<open>{"foo": "bar", "text": "x"}\<close> has the unknown
  key \<open>foo\<close>.  The reader reads \<open>foo\<close> as the first key and consumes nothing for it, then
  reads the value \<open>bar\<close> as the second key; it returns the zero record, with the pair
  for \<open>text\<close> still unread, where the claim has the field \<open>text\<close> parsed as \<open>x\<close>.
\<close>

theorem Read_Error_info_unknown_key_counterexample:
  "wire_error_map [(''foo'', StrVal ''bar''), (''text'', StrVal ''x'')] =
     [0x82, 0xa3, 0x66, 0x6f, 0x6f, 0xa3, 0x62, 0x61, 0x72, 0xa4, 0x74, 0x65, 0x78, 0x74, 0xa1, 0x78] \<and>
   Read_Error_info
     [0x82, 0xa3, 0x66, 0x6f, 0x6f, 0xa3, 0x62, 0x61, 0x72, 0xa4, 0x74, 0x65, 0x78, 0x74, 0xa1, 0x78] =
     (Ok Error_info_zero, [0xa4, 0x74, 0x65, 0x78, 0x74, 0xa1, 0x78]) \<and>
   text' Error_info_zero \<noteq> ''x''"
proof (intro conjI)
  show "wire_error_map [(''foo'', StrVal ''bar''), (''text'', StrVal ''x'')] =
     [0x82, 0xa3, 0x66, 0x6f, 0x6f, 0xa3, 0x62, 0x61, 0x72, 0xa4, 0x74, 0x65, 0x78, 0x74, 0xa1, 0x78]"
    by (simp add: wire_error_map_def AppendMapHeader_def wire_pair_def wire_string_def
        AppendStringHeader_def bytes_of_string_def msgp_const)
next
  have h: "ReadMapHeader (0x82 # rest) = (Ok 2, rest)" for rest
    by (simp add: ReadMapHeader_def rbind_read_prefix rreturn_def msgp_const first_bits_4_def)
  have c1: "string_of_bytes [0x66, 0x6f, 0x6f] = ''foo''" by code_simp
  have c2: "string_of_bytes [0x62, 0x61, 0x72] = ''bar''" by code_simp
  have s1: "ReadString (0xa3 # [0x66, 0x6f, 0x6f] @ rest) = (Ok ''foo'', rest)" for rest
    using ReadStringAsBytes_fixstr[of "0xa3" "[0x66, 0x6f, 0x6f]" rest]
    by (simp add: ReadString_def rbind_def rreturn_def msgp_const first_bits_5_def c1)
  have s2: "ReadString (0xa3 # [0x62, 0x61, 0x72] @ rest) = (Ok ''bar'', rest)" for rest
    using ReadStringAsBytes_fixstr[of "0xa3" "[0x62, 0x61, 0x72]" rest]
    by (simp add: ReadString_def rbind_def rreturn_def msgp_const first_bits_5_def c2)
  have f1: "read_error_field ''foo'' e = rreturn e" for e
    by (simp add: read_error_field_def)
  have f2: "read_error_field ''bar'' e = rreturn e" for e
    by (simp add: read_error_field_def)
  have l: "error_info_loop 2 e
      (0xa3 # [0x66, 0x6f, 0x6f] @ 0xa3 # [0x62, 0x61, 0x72] @ rest) = (Ok e, rest)" for e rest
    by (simp only: numeral_2_eq_2 error_info_loop.simps rbind_def s1 s2 f1 f2 rreturn_def
        prod.case res.case)
  have u: "unat (2 :: uint32) = 2" by simp
  show "Read_Error_info
     [0x82, 0xa3, 0x66, 0x6f, 0x6f, 0xa3, 0x62, 0x61, 0x72, 0xa4, 0x74, 0x65, 0x78, 0x74, 0xa1, 0x78] =
     (Ok Error_info_zero, [0xa4, 0x74, 0x65, 0x78, 0x74, 0xa1, 0x78])"
    using l[of Error_info_zero "[0xa4, 0x74, 0x65, 0x78, 0x74, 0xa1, 0x78]"]
    by (simp add: Read_Error_info_def rbind_def h u del: error_info_loop.simps)
next
  show "text' Error_info_zero \<noteq> ''x''" by (simp add: Error_info_zero_def)
qed

lemma Read_Error_info_wire:
  assumes "list_all known_pair kvs" and "length kvs < 2 ^ 32"
  shows "Read_Error_info (wire_error_map kvs @ rest) =
           (Ok (foldl set_field Error_info_zero kvs), rest)"
proof -
  have "ReadMapHeader (AppendMapHeader [] (of_nat (length kvs)) @ (concat (map wire_pair kvs) @ rest))
      = (Ok (of_nat (length kvs)), concat (map wire_pair kvs) @ rest)"
    by (rule ReadMapHeader_AppendMapHeader)
  then show ?thesis
    using assms(2)
    by (simp add: Read_Error_info_def wire_error_map_def rbind_def unat_length32
        error_info_loop_known[OF assms(1)])
qed

lemma read_error_field_unknown:
  assumes "k \<notin> set string_keys" and "k \<notin> set int_keys"
  shows "read_error_field k e br = (Ok e, br)"
  using assms by (simp add: read_error_field_def string_keys_def int_keys_def rreturn_def)

lemma error_info_loop_unknown:
  assumes "k \<notin> set string_keys" and "k \<notin> set int_keys" and "ReadString br = (Ok k, br1)"
  shows "error_info_loop (Suc m) e br = error_info_loop m e br1"
  by (rule error_info_loop_Suc[OF assms(3) read_error_field_unknown[OF assms(1,2)]])

text \<open>
  Claim C5, amended.  Whenever the error-record reader reads a map header and then, for
  each pair of the map, a key that is a known field name followed by a value that the
  decoder of the field's type reads (\<open>ReadString\<close> for the string fields, \<open>ReadInt64\<close>
  for the integer fields), it stores every pair in the field of its key (a later pair
  for a key overrides an earlier one), returns the record and consumes exactly the map.
  The maps this package's encoder writes for such pairs are of this kind.  After a key
  that is not a known field name the reader stores nothing and consumes nothing of the
  value of that pair: it goes on with the remaining pairs at the first byte of that
  value, which is not skipped.
\<close>

theorem Read_Error_info_known_keys:
  "(ReadMapHeader br = (Ok n, br0) \<and> unat n = length kvs \<and> list_all typed_pair kvs \<and>
    reads_pairs kvs br0 = Some br' \<longrightarrow>
      Read_Error_info br = (Ok (foldl set_field Error_info_zero kvs), br')) \<and>
   (list_all known_pair kvs \<and> length kvs < 2 ^ 32 \<longrightarrow>
      Read_Error_info (wire_error_map kvs @ rest) =
        (Ok (foldl set_field Error_info_zero kvs), rest)) \<and>
   (k \<notin> set string_keys \<and> k \<notin> set int_keys \<longrightarrow>
      read_error_field k e br1 = (Ok e, br1)) \<and>
   (k \<notin> set string_keys \<and> k \<notin> set int_keys \<and> ReadString br2 = (Ok k, br3) \<longrightarrow>
      error_info_loop (Suc m) e br2 = error_info_loop m e br3)"
  using Read_Error_info_pairs Read_Error_info_wire read_error_field_unknown
    error_info_loop_unknown
  by blast

theorem Read_Error_info_known_keys_witness:
  "Read_Error_info [0x82, 0xa5, 0x73, 0x74, 0x61, 0x74, 0x65, 0xd0, 0x05,
                    0xd9, 0x04, 0x74, 0x65, 0x78, 0x74, 0xd9, 0x01, 0x78, 14, 0] =
     (Ok (Error_info_zero\<lparr>state := 5, text' := ''x''\<rparr>), [14, 0]) \<and>
   Read_Error_info (wire_error_map [(''state'', IntVal 1), (''text'', StrVal ''divide by zero''),
                                    (''line_no'', IntVal 4)] @ [14, 0]) =
     (Ok (Error_info_zero\<lparr>state := 1, text' := ''divide by zero'', line_no := 4\<rparr>), [14, 0]) \<and>
   read_error_field ''foo'' Error_info_zero [0xa3, 0x62, 0x61, 0x72] =
     (Ok Error_info_zero, [0xa3, 0x62, 0x61, 0x72]) \<and>
   error_info_loop (Suc 0) Error_info_zero [0xa3, 0x66, 0x6f, 0x6f, 0xa3, 0x62, 0x61, 0x72] =
     error_info_loop 0 Error_info_zero [0xa3, 0x62, 0x61, 0x72]"
proof -
  let ?kvs = "[(''state'', IntVal 5), (''text'', StrVal ''x'')]"
  let ?wire = "[(''state'', IntVal 1), (''text'', StrVal ''divide by zero''), (''line_no'', IntVal 4)]"
  have h: "ReadMapHeader [0x82, 0xa5, 0x73, 0x74, 0x61, 0x74, 0x65, 0xd0, 0x05,
                    0xd9, 0x04, 0x74, 0x65, 0x78, 0x74, 0xd9, 0x01, 0x78, 14, 0] =
      (Ok 2, [0xa5, 0x73, 0x74, 0x61, 0x74, 0x65, 0xd0, 0x05,
                    0xd9, 0x04, 0x74, 0x65, 0x78, 0x74, 0xd9, 0x01, 0x78, 14, 0])"
    by (simp add: ReadMapHeader_def rbind_read_prefix rreturn_def msgp_const first_bits_4_def)
  have u: "unat (2 :: uint32) = length ?kvs" by simp
  have t: "list_all typed_pair ?kvs" by (simp add: string_keys_def int_keys_def)
  have p: "reads_pairs ?kvs [0xa5, 0x73, 0x74, 0x61, 0x74, 0x65, 0xd0, 0x05,
                    0xd9, 0x04, 0x74, 0x65, 0x78, 0x74, 0xd9, 0x01, 0x78, 14, 0] = Some [14, 0]"
    by code_simp
  have f1: "foldl set_field Error_info_zero ?kvs = Error_info_zero\<lparr>state := 5, text' := ''x''\<rparr>"
    by simp
  have k: "list_all known_pair ?wire" by (simp add: string_keys_def int_keys_def)
  have f2: "foldl set_field Error_info_zero ?wire =
      Error_info_zero\<lparr>state := 1, text' := ''divide by zero'', line_no := 4\<rparr>"
    by simp
  have n: "''foo'' \<notin> set string_keys \<and> ''foo'' \<notin> set int_keys"
    by (simp add: string_keys_def int_keys_def)
  have c: "string_of_bytes [0x66, 0x6f, 0x6f] = ''foo''" by code_simp
  have s: "ReadString [0xa3, 0x66, 0x6f, 0x6f, 0xa3, 0x62, 0x61, 0x72] =
      (Ok ''foo'', [0xa3, 0x62, 0x61, 0x72])"
    using ReadStringAsBytes_fixstr[of "0xa3" "[0x66, 0x6f, 0x6f]" "[0xa3, 0x62, 0x61, 0x72]"]
    by (simp add: ReadString_def rbind_def rreturn_def msgp_const first_bits_5_def c)
  have A: "Read_Error_info [0x82, 0xa5, 0x73, 0x74, 0x61, 0x74, 0x65, 0xd0, 0x05,
                    0xd9, 0x04, 0x74, 0x65, 0x78, 0x74, 0xd9, 0x01, 0x78, 14, 0] =
      (Ok (foldl set_field Error_info_zero ?kvs), [14, 0])"
    by (rule Read_Error_info_known_keys [THEN conjunct1, THEN mp,
          OF conjI [OF h conjI [OF u conjI [OF t p]]]])
  have B: "Read_Error_info (wire_error_map ?wire @ [14, 0]) =
      (Ok (foldl set_field Error_info_zero ?wire), [14, 0])"
    by (rule Read_Error_info_known_keys [THEN conjunct2, THEN conjunct1, THEN mp])
      (intro conjI k, simp)
  have C: "read_error_field ''foo'' Error_info_zero [0xa3, 0x62, 0x61, 0x72] =
      (Ok Error_info_zero, [0xa3, 0x62, 0x61, 0x72])"
    by (rule Read_Error_info_known_keys [THEN conjunct2, THEN conjunct2, THEN conjunct1, THEN mp])
      (rule n)
  have D: "error_info_loop (Suc 0) Error_info_zero [0xa3, 0x66, 0x6f, 0x6f, 0xa3, 0x62, 0x61, 0x72] =
      error_info_loop 0 Error_info_zero [0xa3, 0x62, 0x61, 0x72]"
    by (rule Read_Error_info_known_keys [THEN conjunct2, THEN conjunct2, THEN conjunct2, THEN mp,
          OF conjI [OF n [THEN conjunct1] conjI [OF n [THEN conjunct2] s]]])
  show ?thesis using A B C D unfolding f1 f2 by simp
qed

text \<open>
  An integer field written in a \<open>uint\<close> form is not a value that \<open>ReadInt64\<close> reads: for
  the map \<open>{"state": 200}\<close> with 200 as a \<open>uint8\<close> the reader returns the error of the
  bad prefix.
\<close>

lemma Read_Error_info_uint_form:
  "Read_Error_info [0x81, 0xa5, 0x73, 0x74, 0x61, 0x74, 0x65, 0xcc, 0xc8] =
     (Err (ErrBadPrefix ''read int'' 0xcc), [0xc8])"
  by code_simp

subsection \<open>The batch state machine\<close>

lemma colnameMap_loop_empty: "colnameMap_loop i names Map.empty = Map.empty"
  by (induction names arbitrary: i) simp_all

text \<open>
  The RecordLayout case of the switch stores, as the column-name map of the batch, what
  \<open>build_colnameMap\<close> makes of the received name list.
\<close>

lemma step_switch_RECORD_LAYOUT:
  assumes "Create_colname_list (get_mr b) = (Ok names, br1)"
    and "Create_row br1 = (Ok row, br2)"
  shows "step_switch lib sTEP_NEXT_RECORD RESTYP_RECORD_LAYOUT b =
           Return False ((set_mr br2 b)\<lparr>colnameList := Some names,
                           colnameMap := Some (build_colnameMap names),
                           record' := Some row, recordCount := 0,
                           recordsetCount := recordsetCount b + 1,
                           status := sTATUS_RECORD_LAYOUT_AVAILABLE\<rparr>)"
  using assms by (simp add: step_switch_def on_session_def Let_def get_mr_def set_mr_def)

text \<open>
  Claim C1 does not hold of the code.  The map the state machine builds from a received
  name list is empty, whatever the list: a name is only ever stored when it is already
  in the map.  For the name list \<open>["a", "b", "a", ""]\<close> the lookup of \<open>b\<close> is absent,
  where the claim has the entry for \<open>b\<close>.
\<close>

theorem colnameMap_always_empty:
  "build_colnameMap names = Map.empty \<and>
   build_colnameMap [''a'', ''b'', ''a'', ''''] ''b'' = None"
  by (simp add: build_colnameMap_def colnameMap_loop_empty)

text \<open>
  Claim C2 does not hold of the code.  On a session as \<open>Connect\<close> creates it, the first
  \<open>Close\<close> returns successfully; the second \<open>Close\<close> closes the channel \<open>ticker_done\<close>
  again, which panics.
\<close>

theorem Close_twice_panics:
  "fst (Close (new_Session br)) = Ok None \<and>
   fst (Close (snd (Close (new_Session br)))) = Panic ''close of closed channel''"
  by (simp add: Close_def new_Session_def Let_def)

text \<open>
  Claim C7.  Once a batch has a recorded error, \<open>step\<close> and \<open>Next\<close> return false at once
  and leave the batch, its connection and the unread input as they are; \<open>Finalize\<close>
  returns the stored error and changes nothing; \<open>Scan\<close> returns the stored error and
  leaves every destination as it is.
\<close>

theorem errored_batch_is_inert:
  assumes "err b = Some e"
  shows "step lib option b = (Ok False, b) \<and> Next lib b = (Ok False, b) \<and>
         Finalize lib b = (Ok (Some e), b) \<and> Scan lib b dest = (Ok (Some e), dest)"
  using assms by (simp add: step_def Next_def Finalize_def Scan_def)

theorem errored_batch_is_inert_witness:
  "step example_lib sTEP_FINALIZE
       ((sent_Batch (new_Connection [4, 0x91, 1]) ''select 1'')\<lparr>err := Some EOF\<rparr>)
     = (Ok False, (sent_Batch (new_Connection [4, 0x91, 1]) ''select 1'')\<lparr>err := Some EOF\<rparr>) \<and>
   Next example_lib ((sent_Batch (new_Connection [4, 0x91, 1]) ''select 1'')\<lparr>err := Some EOF\<rparr>)
     = (Ok False, (sent_Batch (new_Connection [4, 0x91, 1]) ''select 1'')\<lparr>err := Some EOF\<rparr>) \<and>
   Finalize example_lib
       ((sent_Batch (new_Connection [4, 0x91, 1]) ''select 1'')\<lparr>err := Some EOF\<rparr>)
     = (Ok (Some EOF),
        (sent_Batch (new_Connection [4, 0x91, 1]) ''select 1'')\<lparr>err := Some EOF\<rparr>) \<and>
   Scan example_lib
        ((sent_Batch (new_Connection [4, 0x91, 1]) ''select 1'')\<lparr>err := Some EOF\<rparr>) [DInt 0]
     = (Ok (Some EOF), [DInt 0])"
  using errored_batch_is_inert
    [of "(sent_Batch (new_Connection [4, 0x91, 1]) ''select 1'')\<lparr>err := Some EOF\<rparr>" EOF
        example_lib sTEP_FINALIZE "[DInt 0]"]
  by simp

lemmas RESTYP_defs = RESTYP_RECORD_LAYOUT_def RESTYP_RECORD_def RESTYP_RECORD_FINISHED_def
  RESTYP_EXECUTION_FINISHED_def RESTYP_PRINT_def RESTYP_MESSAGE_def RESTYP_ERROR_def
  RESTYP_BATCH_END_def

lemma step_switch_RECORD_FINISHED:
  "step_switch lib option RESTYP_RECORD_FINISHED b =
     on_session Read_int64 b (\<lambda>recordCount' b1.
          if recordCount' \<noteq> recordCount b1
            then Return False
                   (b1\<lparr>err := Some (ErrRecordcountMismatch recordCount' (recordCount b1))\<rparr>)
          else Continue (b1\<lparr>colnameList := None, colnameMap := None, record' := None,
                            recordCount := recordCount', status := sTATUS_RECORD_END\<rparr>))"
  by (simp add: step_switch_def RESTYP_defs)

lemma recordCount_set_mr [simp]: "recordCount (set_mr br b) = recordCount b"
  by (simp add: set_mr_def)

lemma err_set_mr [simp]: "err (set_mr br b) = err b"
  by (simp add: set_mr_def)

lemma set_mr_set_mr [simp]: "set_mr br (set_mr br' b) = set_mr br b"
  by (simp add: set_mr_def)

lemma Read_response_type_Cons:
  "resp \<le> 127 \<Longrightarrow> Read_response_type (resp # rest) = (Ok resp, rest)"
  by (simp add: Read_response_type_def rbind_def ReadUint8_fixint rreturn_def)

lemma Read_int64_fixint:
  "v \<le> 127 \<Longrightarrow> Read_int64 (v # rest) = (Ok (ucast v), rest)"
  by (simp add: Read_int64_def rbind_def ReadInt64_fixint rreturn_def)

text \<open>
  Claim C6.  Whenever the message loop reads a RecordFinished tag followed by the
  \<open>int64\<close> \<open>n\<close>: if \<open>n\<close> differs from the batch's own running record count, the mismatch
  error is recorded on the batch and the loop returns false; otherwise the column-name
  list, the column-name map and the row are set to nil, the recorded count is \<open>n\<close>, the
  status is \<open>sTATUS_RECORD_END\<close>, and the loop goes on from that state.  On a batch
  without a recorded error \<open>step\<close> is this loop.
\<close>

theorem RecordFinished_step:
  assumes "Read_response_type (get_mr b) = (Ok RESTYP_RECORD_FINISHED, br1)"
    and "Read_int64 br1 = (Ok n, br2)"
  shows "(n \<noteq> recordCount b \<longrightarrow>
           step_loop lib option b =
             (Ok False, (set_mr br2 b)\<lparr>err := Some (ErrRecordcountMismatch n (recordCount b))\<rparr>)) \<and>
         (n = recordCount b \<longrightarrow>
           step_loop lib option b =
             step_loop lib option ((set_mr br2 b)\<lparr>colnameList := None, colnameMap := None,
                            record' := None, recordCount := n, status := sTATUS_RECORD_END\<rparr>)) \<and>
         (err b = None \<longrightarrow> step lib option b = step_loop lib option b)"
proof -
  have sw: "step_switch lib option RESTYP_RECORD_FINISHED (set_mr br1 b) =
      (if n \<noteq> recordCount b
       then Return False ((set_mr br2 b)\<lparr>err := Some (ErrRecordcountMismatch n (recordCount b))\<rparr>)
       else Continue ((set_mr br2 b)\<lparr>colnameList := None, colnameMap := None, record' := None,
                            recordCount := n, status := sTATUS_RECORD_END\<rparr>))"
    using assms(2) by (simp add: step_switch_RECORD_FINISHED on_session_def)
  have loop: "step_loop lib option b =
      (case step_switch lib option RESTYP_RECORD_FINISHED (set_mr br1 b) of
             Continue b' \<Rightarrow> step_loop lib option b'
           | Return r b' \<Rightarrow> (Ok r, b')
           | Panicked p b' \<Rightarrow> (Panic p, b'))"
    by (subst step_loop.simps) (simp add: assms(1))
  show ?thesis
  proof (intro conjI impI)
    assume "n \<noteq> recordCount b"
    then show "step_loop lib option b =
             (Ok False, (set_mr br2 b)\<lparr>err := Some (ErrRecordcountMismatch n (recordCount b))\<rparr>)"
      by (simp add: loop sw)
  next
    assume "n = recordCount b"
    then show "step_loop lib option b =
             step_loop lib option ((set_mr br2 b)\<lparr>colnameList := None, colnameMap := None,
                            record' := None, recordCount := n, status := sTATUS_RECORD_END\<rparr>)"
      by (simp add: loop sw)
  next
    assume "err b = None"
    then show "step lib option b = step_loop lib option b"
      by (simp add: step_def)
  qed
qed

theorem RecordFinished_step_witness:
  "step example_lib sTEP_FINALIZE ((sent_Batch (new_Connection [5, 3, 14, 0]) ''select 1'')\<lparr>recordCount := 3\<rparr>) =
     step example_lib sTEP_FINALIZE
       ((set_mr [14, 0] ((sent_Batch (new_Connection [5, 3, 14, 0]) ''select 1'')\<lparr>recordCount := 3\<rparr>))
          \<lparr>colnameList := None, colnameMap := None, record' := None, recordCount := 3,
            status := sTATUS_RECORD_END\<rparr>) \<and>
   step example_lib sTEP_FINALIZE ((sent_Batch (new_Connection [5, 2, 14, 0]) ''select 1'')\<lparr>recordCount := 3\<rparr>) =
     (Ok False,
      (set_mr [14, 0] ((sent_Batch (new_Connection [5, 2, 14, 0]) ''select 1'')\<lparr>recordCount := 3\<rparr>))
        \<lparr>err := Some (ErrRecordcountMismatch 2 3)\<rparr>)"
proof -
  let ?b = "\<lambda>br. (sent_Batch (new_Connection br) ''select 1'')\<lparr>recordCount := 3\<rparr>"
  have e: "err (?b br) = None" for br by (simp add: sent_Batch_def)
  have g: "get_mr (?b br) = br" for br
    by (simp add: get_mr_def sent_Batch_def new_Connection_def new_Session_def)
  have r: "Read_response_type (get_mr (?b (5 # rest))) = (Ok RESTYP_RECORD_FINISHED, rest)" for rest
    by (simp add: g Read_response_type_Cons RESTYP_RECORD_FINISHED_def)
  have i3: "Read_int64 [3, 14, 0] = (Ok 3, [14, 0])"
    using Read_int64_fixint [of 3 "[14, 0]"] by simp
  have i2: "Read_int64 [2, 14, 0] = (Ok 2, [14, 0])"
    using Read_int64_fixint [of 2 "[14, 0]"] by simp
  have c: "recordCount (?b br) = 3" for br by simp
  have s: "step example_lib sTEP_FINALIZE (?b br) = step_loop example_lib sTEP_FINALIZE (?b br)" for br
    by (simp add: step_def e)
  have s': "step example_lib sTEP_FINALIZE ((set_mr br' (?b br))
          \<lparr>colnameList := None, colnameMap := None, record' := None, recordCount := 3,
            status := sTATUS_RECORD_END\<rparr>) =
        step_loop example_lib sTEP_FINALIZE ((set_mr br' (?b br))
          \<lparr>colnameList := None, colnameMap := None, record' := None, recordCount := 3,
            status := sTATUS_RECORD_END\<rparr>)" for br br'
    by (simp add: step_def e)
  show ?thesis
    using RecordFinished_step [OF r i3, of example_lib sTEP_FINALIZE]
      RecordFinished_step [OF r i2, of example_lib sTEP_FINALIZE]
    by (simp only: c s s') simp
qed

subsection \<open>Fixed-length character fields\<close>

lemma utf8_first_size_le: "utf8_first_size c \<le> 4"
  by (simp add: utf8_first_size_def)

lemma utf8_first_size_1: "utf8_first_size c = 1 \<Longrightarrow> c < 0x80"
  by (simp add: utf8_first_size_def split: if_splits)

lemma rune_size_le:
  assumes "p \<noteq> []"
  shows "rune_size p \<le> length p"
proof -
  have l: "1 \<le> length p" using assms by (cases p) simp_all
  have sz: "utf8_first_size (p ! 0) \<le> 4" by (rule utf8_first_size_le)
  consider "utf8_first_size (p ! 0) = 0" | "utf8_first_size (p ! 0) = 1"
    | "utf8_first_size (p ! 0) = 2" | "utf8_first_size (p ! 0) = 3"
    | "utf8_first_size (p ! 0) = 4"
    using sz by linarith
  then show ?thesis
  proof cases
    case 1 then show ?thesis using l by (simp add: rune_size_def Let_def)
  next
    case 2 then show ?thesis using l utf8_first_size_1[OF 2] by (simp add: rune_size_def Let_def)
  next
    case 3 then show ?thesis using l by (simp add: rune_size_def Let_def)
  next
    case 4 then show ?thesis using l by (simp add: rune_size_def Let_def)
  next
    case 5 then show ?thesis using l by (simp add: rune_size_def Let_def)
  qed
qed

lemma accept_lo: "(0x20 :: byte) < fst (utf8_accept c)"
  by (simp add: utf8_accept_def utf8_locb_def)

lemma space_lt_locb: "(0x20 :: byte) < utf8_locb"
  by (simp add: utf8_locb_def)

lemma nth_append_spaces:
  "i < length p + k \<Longrightarrow> (p @ replicate k (0x20 :: byte)) ! i = (if i < length p then p ! i else 0x20)"
  by (simp add: nth_append)

lemma rune_size_append_spaces:
  assumes "p \<noteq> []"
  shows "rune_size (p @ replicate k 0x20) = rune_size p"
proof -
  let ?q = "p @ replicate k (0x20 :: byte)"
  let ?c = "p ! 0"
  have q0: "?q ! 0 = ?c" using assms by (cases p) simp_all
  have sz: "utf8_first_size ?c \<le> 4" by (rule utf8_first_size_le)
  have n: "i < length p \<Longrightarrow> ?q ! i = p ! i" for i by (simp add: nth_append)
  have sp: "length p \<le> i \<Longrightarrow> i < length p + k \<Longrightarrow> ?q ! i = 0x20" for i
    by (simp add: nth_append)
  show ?thesis
  proof (cases "utf8_first_size ?c \<le> length p")
    case True
    consider "utf8_first_size ?c = 0" | "utf8_first_size ?c = 1"
      | "utf8_first_size ?c = 2" | "utf8_first_size ?c = 3"
      | "utf8_first_size ?c = 4"
      using sz by linarith
    then show ?thesis
    proof cases
      case 1 then show ?thesis using q0 by (simp add: rune_size_def Let_def)
    next
      case 2 then show ?thesis using q0 utf8_first_size_1[OF 2] by (simp add: rune_size_def Let_def)
    next
      case 3
      then have "?q ! 1 = p ! 1" using True n[of 1] by simp
      then show ?thesis using q0 3 True by (simp add: rune_size_def Let_def)
    next
      case 4
      then have "?q ! 1 = p ! 1" "?q ! 2 = p ! 2" using True n[of 1] n[of 2] by simp_all
      then show ?thesis using q0 4 True by (simp add: rune_size_def Let_def)
    next
      case 5
      then have "?q ! 1 = p ! 1" "?q ! 2 = p ! 2" "?q ! 3 = p ! 3"
        using True n[of 1] n[of 2] n[of 3] by simp_all
      then show ?thesis using q0 5 True by (simp add: rune_size_def Let_def)
    qed
  next
    case False
    then have r1: "rune_size p = 1" by (simp add: rune_size_def Let_def)
    show ?thesis
    proof (cases "utf8_first_size ?c \<le> length p + k")
      case F2: False
      then show ?thesis using r1 q0 by (simp add: rune_size_def Let_def)
    next
      case T2: True
      have lp: "0 < length p" using assms by simp
      consider "length p = 1" | "length p = 2" | "length p = 3"
        using False sz lp by linarith
      then show ?thesis
      proof cases
        case 1
        then have "?q ! 1 = 0x20" using sp[of 1] T2 False by simp
        then show ?thesis using r1 q0 accept_lo[of ?c] by (simp add: rune_size_def Let_def)
      next
        case 2
        then have a: "?q ! 2 = 0x20" "?q ! 1 = p ! 1" using sp[of 2] n[of 1] T2 False by simp_all
        show ?thesis using r1 q0 False 2 space_lt_locb
          by (simp add: rune_size_def Let_def a)
      next
        case 3
        then have a: "?q ! 3 = 0x20" "?q ! 1 = p ! 1" "?q ! 2 = p ! 2"
          using sp[of 3] n[of 1] n[of 2] T2 False by simp_all
        show ?thesis using r1 q0 False 3 space_lt_locb sz
          by (simp add: rune_size_def Let_def a)
      qed
    qed
  qed
qed

lemma rune_size_space: "rune_size (0x20 # xs) = 1"
  by (simp add: rune_size_def Let_def)

lemma RuneCount_Nil: "RuneCount [] = 0"
  by (subst RuneCount.simps) simp

lemma RuneCount_spaces: "RuneCount (replicate k 0x20) = k"
proof (induction k)
  case 0
  show ?case by (simp add: RuneCount_Nil)
next
  case (Suc k)
  show ?case
    by (subst RuneCount.simps) (simp add: rune_size_space Suc)
qed

lemma RuneCount_append_spaces: "RuneCount (p @ replicate k 0x20) = RuneCount p + k"
proof (induction p rule: RuneCount.induct)
  case (1 p)
  show ?case
  proof (cases "p = []")
    case True
    then show ?thesis by (simp add: RuneCount_spaces RuneCount_Nil)
  next
    case False
    have le: "rune_size p \<le> length p" using False by (rule rune_size_le)
    have "RuneCount (p @ replicate k 0x20) =
        Suc (RuneCount (drop (rune_size (p @ replicate k 0x20)) (p @ replicate k 0x20)))"
      using False by (subst RuneCount.simps) simp
    also have "\<dots> = Suc (RuneCount (drop (rune_size p) p @ replicate k 0x20))"
      using le by (simp add: rune_size_append_spaces[OF False])
    also have "\<dots> = Suc (RuneCount (drop (rune_size p) p) + k)"
      using 1[OF False] by simp
    also have "\<dots> = RuneCount p + k"
      using False by (subst (2) RuneCount.simps) simp
    finally show ?thesis .
  qed
qed

lemma grown_cap_ge: "n \<le> grown_cap lib l c n"
  by (simp add: grown_cap_def)

lemma grown_cap_same: "n \<le> c \<Longrightarrow> grown_cap lib l c n = c"
  by (simp add: grown_cap_def)

lemma NextType_Ok:
  assumes "fst (NextType br) = Ok objtype"
  shows "NextType br = (Ok objtype, br)"
  using assms NextType_keeps_input[of br] by (cases "NextType br") simp

lemma read_bytes_value_not_nil:
  assumes "fst (NextType br) = Ok objtype" and "objtype \<noteq> NilType"
    and "read br = (Ok val, br')"
  shows "read_bytes_value lib read read_dest mk is_null v finish br =
           ((Ok (), mk False (finish (stored lib v val))), br')"
  using assms(2,3) by (simp add: read_bytes_value_def NextType_Ok[OF assms(1)])

lemma pad_fixlen_stored:
  "pad_fixlen lib precision (stored lib old val) =
     Slice (val @ replicate (unat precision - RuneCount val) 0x20)
       (grown_cap lib (length val) (grown_cap lib (cap old) (cap old) (length val))
          (length val + (unat precision - RuneCount val)))"
proof (cases "RuneCount val < unat precision")
  case True
  then show ?thesis
    by (simp add: pad_fixlen_def stored_def append_slice_def Let_def)
next
  case False
  then show ?thesis
    by (simp add: pad_fixlen_def stored_def Let_def grown_cap_same[OF grown_cap_ge])
qed

text \<open>
  Claim C9.  When a \<open>Varchar\<close> field with \<open>Fixlen\<close> true reads a value that is not nil
  and the string \<open>val\<close> arrives, the stored value is \<open>val\<close> followed by
  \<open>Precision - r\<close> blanks (\<open>0x20\<close>), where \<open>r\<close> is the rune count of \<open>val\<close> (natural
  subtraction: none when \<open>r \<ge> Precision\<close>).  So when \<open>r < Precision\<close> the rune count of
  the stored value is \<open>Precision\<close>, and when \<open>r \<ge> Precision\<close> the stored value is \<open>val\<close>
  itself.  The count is in runes, not bytes.  (The capacity of the stored slice is the
  one its backing array has after the read and the \<open>append\<close> of the blanks.)
\<close>

theorem Varchar_fixlen_padding:
  assumes "fst (NextType br) = Ok objtype" and "objtype \<noteq> NilType"
    and "ReadStringAsBytes br = (Ok val, br')"
  shows "read_value lib (Varchar precision True is_null old) br =
           ((Ok (), Varchar precision True False
                  (Slice (val @ replicate (unat precision - RuneCount val) 0x20)
                     (grown_cap lib (length val)
                        (grown_cap lib (cap old) (cap old) (length val))
                        (length val + (unat precision - RuneCount val))))), br') \<and>
         (RuneCount val < unat precision \<longrightarrow>
            RuneCount (val @ replicate (unat precision - RuneCount val) 0x20) = unat precision) \<and>
         (unat precision \<le> RuneCount val \<longrightarrow>
            val @ replicate (unat precision - RuneCount val) 0x20 = val)"
proof (intro conjI impI)
  show "read_value lib (Varchar precision True is_null old) br =
           ((Ok (), Varchar precision True False
                  (Slice (val @ replicate (unat precision - RuneCount val) 0x20)
                     (grown_cap lib (length val)
                        (grown_cap lib (cap old) (cap old) (length val))
                        (length val + (unat precision - RuneCount val))))), br')"
    by (simp add: read_bytes_value_not_nil[where read = ReadStringAsBytes, OF assms]
        pad_fixlen_stored)
next
  assume "RuneCount val < unat precision"
  then show "RuneCount (val @ replicate (unat precision - RuneCount val) 0x20) = unat precision"
    by (simp add: RuneCount_append_spaces)
next
  assume "unat precision \<le> RuneCount val"
  then show "val @ replicate (unat precision - RuneCount val) 0x20 = val" by simp
qed

theorem Varchar_fixlen_padding_witness:
  "read_value example_lib (Varchar 5 True True (Slice [] 0)) [0xa2, 0x68, 0x69] =
     ((Ok (), Varchar 5 True False (Slice [0x68, 0x69, 0x20, 0x20, 0x20] 10)), []) \<and>
   RuneCount [0x68, 0x69, 0x20, 0x20, 0x20] = 5 \<and>
   read_value example_lib (Varchar 5 True True (Slice [] 0))
       [0xa6, 0x68, 0xC3, 0xA9, 0x6C, 0x6C, 0x6F] =
     ((Ok (), Varchar 5 True False (Slice [0x68, 0xC3, 0xA9, 0x6C, 0x6C, 0x6F] 12)), [])"
proof -
  have t1: "fst (NextType [0xa2, 0x68, 0x69]) = Ok StrType"
    by (simp add: NextType_Cons msgp_const)
  have t2: "fst (NextType [0xa6, 0x68, 0xC3, 0xA9, 0x6C, 0x6C, 0x6F]) = Ok StrType"
    by (simp add: NextType_Cons msgp_const)
  have s1: "ReadStringAsBytes [0xa2, 0x68, 0x69] = (Ok [0x68, 0x69], [])"
    using ReadStringAsBytes_fixstr[of "0xa2" "[0x68, 0x69]" "[]"]
    by (simp add: msgp_const first_bits_5_def)
  have s2: "ReadStringAsBytes [0xa6, 0x68, 0xC3, 0xA9, 0x6C, 0x6C, 0x6F] =
      (Ok [0x68, 0xC3, 0xA9, 0x6C, 0x6C, 0x6F], [])"
    using ReadStringAsBytes_fixstr[of "0xa6" "[0x68, 0xC3, 0xA9, 0x6C, 0x6C, 0x6F]" "[]"]
    by (simp add: msgp_const first_bits_5_def)
  have r1: "RuneCount [0x68, 0x69] = 2"
    by (simp add: RuneCount.simps rune_size_def utf8_first_size_def)
  have r2: "RuneCount [0x68, 0xC3, 0xA9, 0x6C, 0x6C, 0x6F] = 5"
    by (simp add: RuneCount.simps rune_size_def utf8_first_size_def utf8_accept_def
        utf8_locb_def utf8_hicb_def)
  have n: "StrType \<noteq> NilType" by simp
  have e1: "[0x68, 0x69] @ replicate (unat (5 :: uint16) - RuneCount [0x68, 0x69]) 0x20 =
      [0x68, 0x69, 0x20, 0x20, 0x20 :: byte]"
    by (simp add: r1 numeral_3_eq_3)
  have e2: "[0x68, 0xC3, 0xA9, 0x6C, 0x6C, 0x6F] @
      replicate (unat (5 :: uint16) - RuneCount [0x68, 0xC3, 0xA9, 0x6C, 0x6C, 0x6F]) 0x20 =
      [0x68, 0xC3, 0xA9, 0x6C, 0x6C, 0x6F :: byte]"
    by (simp add: r2)
  have c1: "grown_cap example_lib (length [0x68, 0x69 :: byte])
        (grown_cap example_lib (cap (Slice [] 0)) (cap (Slice [] 0)) (length [0x68, 0x69 :: byte]))
        (length [0x68, 0x69 :: byte] + (unat (5 :: uint16) - RuneCount [0x68, 0x69])) = 10"
    by (simp add: r1 grown_cap_def example_lib_def)
  have c2: "grown_cap example_lib (length [0x68, 0xC3, 0xA9, 0x6C, 0x6C, 0x6F :: byte])
        (grown_cap example_lib (cap (Slice [] 0)) (cap (Slice [] 0))
           (length [0x68, 0xC3, 0xA9, 0x6C, 0x6C, 0x6F :: byte]))
        (length [0x68, 0xC3, 0xA9, 0x6C, 0x6C, 0x6F :: byte] +
           (unat (5 :: uint16) - RuneCount [0x68, 0xC3, 0xA9, 0x6C, 0x6C, 0x6F])) = 12"
    by (simp add: r2 grown_cap_def example_lib_def)
  have u: "RuneCount [0x68, 0x69] < unat (5 :: uint16)" by (simp add: r1)
  show ?thesis
    using Varchar_fixlen_padding [OF t1 n s1, of example_lib 5 True "Slice [] 0"]
      Varchar_fixlen_padding [OF t2 n s2, of example_lib 5 True "Slice [] 0"] u
    unfolding e1 e2 c1 c2 by simp
qed

subsection \<open>A row after a failed read\<close>

text \<open>
  A read that fails after it has begun: five bytes are announced and two arrive.  They
  are written over the value \<open>hello\<close> that the field holds, whose backing array has
  room for them; the field keeps its length.  When nine bytes are announced, more than
  the backing array can hold, a new array is allocated and the field is as it was.
\<close>

lemma read_value_short_read:
  "read_value lib (Varchar 10 False False (Slice [0x68, 0x65, 0x6c, 0x6c, 0x6f] 8))
       [0xa5, 0x41, 0x42] =
     ((Err ErrUnexpectedEOF, Varchar 10 False False (Slice [0x41, 0x42, 0x6c, 0x6c, 0x6f] 8)),
      [])"
  "read_value lib (Varchar 10 False False (Slice [0x68, 0x65, 0x6c, 0x6c, 0x6f] 8))
       [0xa9, 0x41, 0x42] =
     ((Err ErrUnexpectedEOF, Varchar 10 False False (Slice [0x68, 0x65, 0x6c, 0x6c, 0x6f] 8)),
      [])"
proof -
  have h5: "ReadStringHeader (0xa5 # rest) = (Ok 5, rest)" for rest
    by (simp add: ReadStringHeader_def rbind_read_prefix rreturn_def msgp_const first_bits_5_def)
  have h9: "ReadStringHeader (0xa9 # rest) = (Ok 9, rest)" for rest
    by (simp add: ReadStringHeader_def rbind_read_prefix rreturn_def msgp_const first_bits_5_def)
  have r5: "ReadStringAsBytes [0xa5, 0x41, 0x42] = (Err ErrUnexpectedEOF, [])"
    by (simp add: ReadStringAsBytes_def rbind_def h5 ReadNBytes_def)
  have r9: "ReadStringAsBytes [0xa9, 0x41, 0x42] = (Err ErrUnexpectedEOF, [])"
    by (simp add: ReadStringAsBytes_def rbind_def h9 ReadNBytes_def)
  have d5: "ReadStringAsBytes_dest 8 [0xa5, 0x41, 0x42] = [0x41, 0x42]"
    by (simp add: ReadStringAsBytes_dest_def h5 ReadNBytes_dest_def)
  have d9: "ReadStringAsBytes_dest 8 [0xa9, 0x41, 0x42] = []"
    by (simp add: ReadStringAsBytes_dest_def h9 ReadNBytes_dest_def)
  have t: "NextType (c # rest) = (Ok StrType, c # rest)" if "c = 0xa5 \<or> c = 0xa9" for c rest
    using that by (auto simp: NextType_Cons msgp_const)
  show "read_value lib (Varchar 10 False False (Slice [0x68, 0x65, 0x6c, 0x6c, 0x6f] 8))
       [0xa5, 0x41, 0x42] =
     ((Err ErrUnexpectedEOF, Varchar 10 False False (Slice [0x41, 0x42, 0x6c, 0x6c, 0x6f] 8)),
      [])"
    by (simp add: read_bytes_value_def t r5 d5 overwritten_def)
  show "read_value lib (Varchar 10 False False (Slice [0x68, 0x65, 0x6c, 0x6c, 0x6f] 8))
       [0xa9, 0x41, 0x42] =
     ((Err ErrUnexpectedEOF, Varchar 10 False False (Slice [0x68, 0x65, 0x6c, 0x6c, 0x6f] 8)),
      [])"
    by (simp add: read_bytes_value_def t r9 d9 overwritten_def)
qed

lemma Fill_row_with_values_short_read:
  "Fill_row_with_values lib
       [Bigint False 1, Varchar 10 False False (Slice [0x68, 0x65, 0x6c, 0x6c, 0x6f] 8)]
       [0x92, 0x07, 0xa5, 0x41, 0x42] =
     ((Err ErrUnexpectedEOF,
       [Bigint False 7, Varchar 10 False False (Slice [0x41, 0x42, 0x6c, 0x6c, 0x6f] 8)]), [])"
proof -
  have h: "ReadArrayHeader (0x92 # rest) = (Ok 2, rest)" for rest
    by (simp add: ReadArrayHeader_def rbind_read_prefix rreturn_def msgp_const first_bits_4_def)
  have t: "NextType (0x07 # rest) = (Ok IntType, 0x07 # rest)" for rest
    by (simp add: NextType_Cons)
  have i: "read_value lib (Bigint False 1) (0x07 # rest) = ((Ok (), Bigint False 7), rest)"
    for rest
    using ReadInt64_fixint[of 7 rest]
    by (simp add: assign_def nullable_def rbind_def t rreturn_def)
  show ?thesis
    by (simp add: Fill_row_with_values_def h i read_value_short_read(1)
        del: read_value.simps)
qed

subsection \<open>Scan\<close>





















end
